theory Spec2Isabelle
  imports Complex_Main
begin

section \<open>JavaScript numbers and array reads\<close>

text \<open>
  A JavaScript \<open>number\<close> is an IEEE binary64 value: a finite one, here the real it
  stands for, or one of the three special values. The sign of zero is left out: the
  only divisor of this program that can be zero is \<open>times.length\<close>, which is \<open>+0\<close>.
\<close>

datatype number = Fin real | PInf | NInf | NaN

text \<open>
  The arithmetic rounds: the result of \<open>+\<close>, \<open>-\<close>, \<open>/\<close>, \<open>**\<close> and \<open>Math.sqrt\<close>
  on finite operands is the exact result rounded to binary64, or an infinity when it
  is too large. The rounding \<open>rd\<close> is a parameter of every operation. Negation is
  exact. The language leaves the accuracy of \<open>**\<close> and \<open>Math.sqrt\<close> to the
  implementation; they are taken to round as the other operations do.
\<close>

fun js_add :: "(real \<Rightarrow> number) \<Rightarrow> number \<Rightarrow> number \<Rightarrow> number" where
  "js_add rd NaN _ = NaN"
| "js_add rd _ NaN = NaN"
| "js_add rd PInf NInf = NaN"
| "js_add rd NInf PInf = NaN"
| "js_add rd PInf _ = PInf"
| "js_add rd _ PInf = PInf"
| "js_add rd NInf _ = NInf"
| "js_add rd _ NInf = NInf"
| "js_add rd (Fin a) (Fin b) = rd (a + b)"

fun js_neg :: "number \<Rightarrow> number" where
  "js_neg NaN = NaN"
| "js_neg PInf = NInf"
| "js_neg NInf = PInf"
| "js_neg (Fin a) = Fin (- a)"

definition js_sub :: "(real \<Rightarrow> number) \<Rightarrow> number \<Rightarrow> number \<Rightarrow> number" where
  "js_sub rd a b = js_add rd a (js_neg b)"

text \<open>\<open>x ** 2\<close>.\<close>

fun js_pow2 :: "(real \<Rightarrow> number) \<Rightarrow> number \<Rightarrow> number" where
  "js_pow2 rd NaN = NaN"
| "js_pow2 rd PInf = PInf"
| "js_pow2 rd NInf = PInf"
| "js_pow2 rd (Fin a) = rd (a * a)"

text \<open>\<open>a / b\<close>, for a divisor that is not negative zero.\<close>

fun js_div :: "(real \<Rightarrow> number) \<Rightarrow> number \<Rightarrow> number \<Rightarrow> number" where
  "js_div rd NaN _ = NaN"
| "js_div rd _ NaN = NaN"
| "js_div rd (Fin a) (Fin b) =
     (if b \<noteq> 0 then rd (a / b)
      else if a = 0 then NaN
      else if 0 < a then PInf else NInf)"
| "js_div rd (Fin a) _ = Fin 0"
| "js_div rd PInf (Fin b) = (if 0 \<le> b then PInf else NInf)"
| "js_div rd NInf (Fin b) = (if 0 \<le> b then NInf else PInf)"
| "js_div rd _ _ = NaN"

text \<open>\<open>Math.sqrt\<close>.\<close>

fun js_sqrt :: "(real \<Rightarrow> number) \<Rightarrow> number \<Rightarrow> number" where
  "js_sqrt rd NaN = NaN"
| "js_sqrt rd PInf = PInf"
| "js_sqrt rd NInf = NaN"
| "js_sqrt rd (Fin a) = (if a < 0 then NaN else rd (sqrt a))"







text \<open>
  \<open>xs[i]\<close> on an array: the element, or \<open>undefined\<close> (here \<open>None\<close>) when \<open>i\<close> is
  not an index of \<open>xs\<close>. The index is an integer, so that \<open>xs[xs.length - 1]\<close> on the
  empty array reads index \<open>-1\<close>.
\<close>

definition js_index :: "'a list \<Rightarrow> int \<Rightarrow> 'a option" where
  "js_index xs i = (if 0 \<le> i \<and> i < int (length xs) then Some (xs ! nat i) else None)"

section \<open>The benchmark engine\<close>

text \<open>
  The benchmarked action \<open>fn\<close> works by side effect: it is a function on the state
  \<open>'w\<close> of everything outside \<open>benchmark\<close> (the variables its closure captures, the
  backends, the clock). \<open>performance.now()\<close> is \<open>now\<close>: it reads the clock, and the
  world may move on while it does. Here \<open>fn\<close> returns; how the generation harness
  deals with a build that throws inside \<open>fn\<close> is said with its closures. The two iteration counts are natural numbers, as the counts every caller
  passes are; a loop from \<open>i = 0\<close> while \<open>i < n\<close> then runs \<open>n\<close> times. The
  \<open>console.log\<close> lines are left out.

  \<open>for (let i = 0; i < warmupRuns; i++) { fn(); }\<close>
\<close>

function warmupLoop :: "('w \<Rightarrow> 'w) \<Rightarrow> nat \<Rightarrow> nat \<Rightarrow> 'w \<Rightarrow> 'w" where
  "warmupLoop fn warmupRuns i w =
     (if i < warmupRuns then warmupLoop fn warmupRuns (i + 1) (fn w) else w)"
  by pat_completeness auto
termination
  by (relation "measure (\<lambda>(fn, warmupRuns, i, w). warmupRuns - i)") auto

text \<open>
  \<open>for (let i = 0; i < runs; i++) { const start = performance.now(); fn();
  const end = performance.now(); times.push(end - start); }\<close>
\<close>

function runLoop ::
  "('w \<Rightarrow> 'w) \<Rightarrow> ('w \<Rightarrow> real \<times> 'w) \<Rightarrow> nat \<Rightarrow> nat \<Rightarrow> real list \<Rightarrow> 'w \<Rightarrow> real list \<times> 'w"
where
  "runLoop fn now runs i times' w =
     (if i < runs then
        (case now w of (start, w1) \<Rightarrow>
           (case now (fn w1) of (end, w2) \<Rightarrow>
              runLoop fn now runs (i + 1) (times' @ [end - start]) w2))
      else (times', w))"
  by pat_completeness auto
termination
  by (relation "measure (\<lambda>(fn, now, runs, i, times', w). runs - i)") auto

declare warmupLoop.simps [simp del]
declare runLoop.simps [simp del]

text \<open>
  \<open>type BenchmarkResult\<close>. The fields \<open>times\<close>, \<open>min\<close> and \<open>max\<close> carry the suffix
  \<open>_ms\<close>, their plain names being constants of HOL (the local array \<open>times\<close> is
  \<open>times'\<close> for the same reason). Each measured time is the
  difference of two readings of the clock, taken as exact, and hence finite; \<open>median\<close>, \<open>min\<close> and
  \<open>max\<close> are reads of the sorted array, which yield \<open>undefined\<close> out of range.
  On finite numbers, \<open>[...times].sort((a, b) => a - b)\<close> is the ascending sort.
  The first argument of \<open>benchmark\<close> is the rounding of its arithmetic.
\<close>

record BenchmarkResult =
  name :: string
  warmupRuns :: nat
  runs :: nat
  times_ms :: "real list"
  mean :: number
  median :: "real option"
  min_ms :: "real option"
  max_ms :: "real option"
  stdDev :: number

definition benchmark ::
  "(real \<Rightarrow> number) \<Rightarrow> string \<Rightarrow> ('w \<Rightarrow> 'w) \<Rightarrow> ('w \<Rightarrow> real \<times> 'w) \<Rightarrow> nat \<Rightarrow> nat \<Rightarrow> 'w \<Rightarrow>
     BenchmarkResult \<times> 'w"
where
  "benchmark = (\<lambda>rd name fn now warmupRuns runs w.
     (case runLoop fn now runs 0 [] (warmupLoop fn warmupRuns 0 w) of (times', w') \<Rightarrow>
        (let sorted = sort times';
             mean = js_div rd (foldl (\<lambda>a b. js_add rd a (Fin b)) (Fin 0) times')
                      (Fin (real (length times')));
             median = js_index sorted (int (length sorted) div 2);
             min = js_index sorted 0;
             max = js_index sorted (int (length sorted) - 1);
             variance =
               js_div rd
                 (foldl (\<lambda>sum time. js_add rd sum (js_pow2 rd (js_sub rd (Fin time) mean)))
                    (Fin 0) times')
                 (Fin (real (length times')));
             stdDev = js_sqrt rd variance
         in (\<lparr> name = name, warmupRuns = warmupRuns, runs = runs, times_ms = times',
                mean = mean, median = median, min_ms = min, max_ms = max,
                stdDev = stdDev \<rparr>, w'))))"

text \<open>
  What the two loops do to the world, named for the statements below: one timed
  iteration (\<open>now\<close>, \<open>fn\<close>, \<open>now\<close>) and the time it records.
\<close>

definition timedCall :: "('w \<Rightarrow> 'w) \<Rightarrow> ('w \<Rightarrow> real \<times> 'w) \<Rightarrow> 'w \<Rightarrow> 'w" where
  "timedCall fn now w = snd (now (fn (snd (now w))))"

definition elapsed :: "('w \<Rightarrow> 'w) \<Rightarrow> ('w \<Rightarrow> real \<times> 'w) \<Rightarrow> 'w \<Rightarrow> real" where
  "elapsed fn now w = fst (now (fn (snd (now w)))) - fst (now w)"

text \<open>
  Instrumentation. \<open>counted fn\<close> is \<open>fn\<close> with a counter of its invocations beside
  the world; \<open>onWorld now\<close> is the clock on a world that carries something beside it (a
  counter, a log, the variables a closure captures), which it leaves alone.
\<close>

definition counted :: "('w \<Rightarrow> 'w) \<Rightarrow> nat \<times> 'w \<Rightarrow> nat \<times> 'w" where
  "counted fn = (\<lambda>(c, w). (c + 1, fn w))"

definition onWorld :: "('w \<Rightarrow> real \<times> 'w) \<Rightarrow> 's \<times> 'w \<Rightarrow> real \<times> 's \<times> 'w" where
  "onWorld now = (\<lambda>(s, w). case now w of (t, w') \<Rightarrow> (t, (s, w')))"

text \<open>A clock for concrete runs: the world is the list of the readings still to come.\<close>

fun scriptedClock :: "real list \<Rightarrow> real \<times> real list" where
  "scriptedClock [] = (0, [])"
| "scriptedClock (t # ts) = (t, ts)"

section \<open>The geometry extractor\<close>

text \<open>
  What \<open>gatherTrianglesFromScene\<close> reads of a \<open>THREE.Mesh\<close>: the vertices of
  \<open>geometry.attributes.position\<close> (\<open>None\<close> when the geometry has no such attribute;
  \<open>position.count\<close> is the length of the list), the entries of \<open>geometry.index\<close>
  (\<open>None\<close> when the geometry is not indexed) and \<open>matrixWorld\<close>. A node of the scene
  graph is a mesh or not (\<open>isMesh\<close>), and has children.
\<close>

type_synonym vec3 = "real \<times> real \<times> real"

record 'm Mesh =
  position :: "vec3 list option"
  index :: "nat list option"
  matrixWorld :: 'm

datatype 'm Object3D = Object3D "'m Mesh option" "'m Object3D list"

datatype error = TypeError | Error string

text \<open>
  \<open>Object3D.traverse(callback)\<close> of three.js calls the callback on the node, then
  traverses the children in their stored order: the nodes in pre-order.
\<close>

fun traverse :: "'m Object3D \<Rightarrow> 'm Object3D list" where
  "traverse (Object3D mesh children) =
     Object3D mesh children # concat (map traverse children)"

text \<open>
  The body of the callback for a mesh, on the three variables it updates.
  \<open>Vector3.applyMatrix4\<close> is a parameter. Reading \<open>position.count\<close> of an absent
  attribute throws a \<open>TypeError\<close>.
\<close>

definition gatherMesh ::
  "('m \<Rightarrow> vec3 \<Rightarrow> vec3) \<Rightarrow> 'm Mesh \<Rightarrow> real list \<times> nat list \<times> nat \<Rightarrow>
     error + real list \<times> nat list \<times> nat"
where
  "gatherMesh applyMatrix4 mesh = (\<lambda>(positions, indices, vertexOffset).
     (case position mesh of
        None \<Rightarrow> Inl TypeError
      | Some pos \<Rightarrow>
          Inr (positions @
                 concat (map (\<lambda>v. case applyMatrix4 (matrixWorld mesh) v of
                                     (x, y, z) \<Rightarrow> [x, y, z]) pos),
               indices @
                 (case index mesh of
                    Some idx \<Rightarrow> map (\<lambda>i. i + vertexOffset) idx
                  | None \<Rightarrow> map (\<lambda>i. i + vertexOffset) [0..<length pos]),
               vertexOffset + length pos)))"

fun gatherNodes ::
  "('m \<Rightarrow> vec3 \<Rightarrow> vec3) \<Rightarrow> 'm Object3D list \<Rightarrow> real list \<times> nat list \<times> nat \<Rightarrow>
     error + real list \<times> nat list \<times> nat"
where
  "gatherNodes applyMatrix4 [] acc = Inr acc"
| "gatherNodes applyMatrix4 (Object3D None children # rest) acc =
     gatherNodes applyMatrix4 rest acc"
| "gatherNodes applyMatrix4 (Object3D (Some mesh) children # rest) acc =
     (case gatherMesh applyMatrix4 mesh acc of
        Inl e \<Rightarrow> Inl e
      | Inr acc' \<Rightarrow> gatherNodes applyMatrix4 rest acc')"

record TriangleBuffer =
  positions :: "real list"
  indices :: "nat list"

text \<open>
  \<open>new Float32Array(positions)\<close> rounds each coordinate to binary32 (\<open>fround\<close>, a
  parameter); \<open>new Uint32Array(indices)\<close> reduces each index modulo \<open>2 ^ 32\<close>.
\<close>

definition gatherTrianglesFromScene ::
  "('m \<Rightarrow> vec3 \<Rightarrow> vec3) \<Rightarrow> (real \<Rightarrow> real) \<Rightarrow> 'm Object3D \<Rightarrow> error + TriangleBuffer"
where
  "gatherTrianglesFromScene applyMatrix4 fround object =
     (case gatherNodes applyMatrix4 (traverse object) ([], [], 0) of
        Inl e \<Rightarrow> Inl e
      | Inr (ps, is, vertexOffset) \<Rightarrow>
          Inr \<lparr> positions = map fround ps, indices = map (\<lambda>i. i mod 2 ^ 32) is \<rparr>)"

text \<open>
  The invariant the specification gives for a triangle buffer: every index is less than
  the number of positions, and the number of indices is a multiple of three. Then the
  meshes of a scene graph in the order of the traversal, and two conditions on a mesh:
  its explicit indices are indices of its own vertices; it is a list of triangles.
\<close>

definition bufferInvariant :: "TriangleBuffer \<Rightarrow> bool" where
  "bufferInvariant buf =
     (list_all (\<lambda>i. i < length (positions buf) div 3) (indices buf) \<and>
      length (indices buf) mod 3 = 0)"

fun meshOf :: "'m Object3D \<Rightarrow> 'm Mesh option" where
  "meshOf (Object3D mesh children) = mesh"

definition meshes :: "'m Object3D \<Rightarrow> 'm Mesh list" where
  "meshes object = List.map_filter meshOf (traverse object)"

definition indicesInRange :: "'m Mesh \<Rightarrow> bool" where
  "indicesInRange mesh =
     (case (position mesh, index mesh) of
        (Some pos, Some idx) \<Rightarrow> list_all (\<lambda>i. i < length pos) idx
      | _ \<Rightarrow> True)"

definition wholeTriangles :: "'m Mesh \<Rightarrow> bool" where
  "wholeTriangles mesh =
     (case (position mesh, index mesh) of
        (Some pos, Some idx) \<Rightarrow> length idx mod 3 = 0
      | (Some pos, None) \<Rightarrow> length pos mod 3 = 0
      | _ \<Rightarrow> True)"

text \<open>
  What the specification asks of the extractor, said on the scene graph itself and
  not through \<open>traverse\<close>: the meshes in pre-order (a node before its children, the
  children in their stored order); the vertex count of a mesh; its own indices, which
  are \<open>0\<close> to \<open>vertexCount - 1\<close> when it has no index list; its transformed
  coordinates; and the indices of all the meshes in order, those of each mesh offset
  by the number of vertices of the meshes before it.
\<close>

fun preorderMeshes :: "'m Object3D \<Rightarrow> 'm Mesh list" where
  "preorderMeshes (Object3D mesh children) =
     (case mesh of None \<Rightarrow> [] | Some m \<Rightarrow> [m]) @ concat (map preorderMeshes children)"

definition vertexCount :: "'m Mesh \<Rightarrow> nat" where
  "vertexCount mesh = (case position mesh of None \<Rightarrow> 0 | Some pos \<Rightarrow> length pos)"

definition localIndices :: "'m Mesh \<Rightarrow> nat list" where
  "localIndices mesh =
     (case index mesh of None \<Rightarrow> [0..<vertexCount mesh] | Some idx \<Rightarrow> idx)"

definition localPositions :: "('m \<Rightarrow> vec3 \<Rightarrow> vec3) \<Rightarrow> 'm Mesh \<Rightarrow> real list" where
  "localPositions applyMatrix4 mesh =
     (case position mesh of
        None \<Rightarrow> []
      | Some pos \<Rightarrow>
          concat (map (\<lambda>v. case applyMatrix4 (matrixWorld mesh) v of
                              (x, y, z) \<Rightarrow> [x, y, z]) pos))"

definition expectedIndices :: "'m Mesh list \<Rightarrow> nat list" where
  "expectedIndices ms =
     concat (map (\<lambda>j. map (\<lambda>i. i + sum_list (map vertexCount (take j ms)))
                          (localIndices (ms ! j)))
               [0..<length ms])"

section \<open>Generation options and their two encodings\<close>

text \<open>
  \<open>type GenerationOptions\<close>, and the option objects the two backends are given. The
  fields of the latter carry the prefixes \<open>recast_\<close> and \<open>navcat_\<close>, since a field
  name can be declared once.
\<close>

record GenerationOptions =
  cellSize :: real
  cellHeight :: real
  walkableRadiusVoxels :: real
  walkableRadiusWorld :: real
  walkableClimbVoxels :: real
  walkableClimbWorld :: real
  walkableHeightVoxels :: real
  walkableHeightWorld :: real
  walkableSlopeAngleDegrees :: real
  borderSize :: real
  minRegionArea :: real
  mergeRegionArea :: real
  maxSimplificationError :: real
  maxEdgeLength :: real
  maxVerticesPerPoly :: real
  detailSampleDistance :: real
  detailSampleMaxError :: real

record RecastOptions =
  recast_cs :: real
  recast_ch :: real
  recast_walkableRadius :: real
  recast_walkableClimb :: real
  recast_walkableHeight :: real
  recast_walkableSlopeAngle :: real
  recast_borderSize :: real
  recast_minRegionArea :: real
  recast_mergeRegionArea :: real
  recast_maxSimplificationError :: real
  recast_maxEdgeLen :: real
  recast_maxVertsPerPoly :: real
  recast_detailSampleDist :: real
  recast_detailSampleMaxError :: real

record NavcatOptions =
  navcat_cellSize :: real
  navcat_cellHeight :: real
  navcat_walkableRadiusVoxels :: real
  navcat_walkableRadiusWorld :: real
  navcat_walkableClimbVoxels :: real
  navcat_walkableClimbWorld :: real
  navcat_walkableHeightVoxels :: real
  navcat_walkableHeightWorld :: real
  navcat_walkableSlopeAngleDegrees :: real
  navcat_borderSize :: real
  navcat_minRegionArea :: real
  navcat_mergeRegionArea :: real
  navcat_maxSimplificationError :: real
  navcat_maxEdgeLength :: real
  navcat_maxVerticesPerPoly :: real
  navcat_detailSampleDistance :: real
  navcat_detailSampleMaxError :: real

definition createGenerationOptions :: GenerationOptions where
  "createGenerationOptions =
     (let cellSize' = 0.15;
          cellHeight' = 0.3;
          walkableClimbWorld' = 0.5;
          walkableHeightWorld' = 1.0;
          walkableRadiusWorld' = 0.2
      in \<lparr> cellSize = cellSize',
           cellHeight = cellHeight',
           walkableRadiusVoxels = of_int \<lceil>walkableRadiusWorld' / cellHeight'\<rceil>,
           walkableRadiusWorld = walkableRadiusWorld',
           walkableClimbVoxels = of_int \<lceil>walkableClimbWorld' / cellHeight'\<rceil>,
           walkableClimbWorld = walkableClimbWorld',
           walkableHeightVoxels = of_int \<lceil>walkableHeightWorld' / cellHeight'\<rceil>,
           walkableHeightWorld = walkableHeightWorld',
           walkableSlopeAngleDegrees = 45,
           borderSize = 0,
           minRegionArea = 8,
           mergeRegionArea = 20,
           maxSimplificationError = 1.3,
           maxEdgeLength = 6.0,
           maxVerticesPerPoly = 6,
           detailSampleDistance = 5.0,
           detailSampleMaxError = 1.3 \<rparr>)"

text \<open>The object \<open>recastOptions\<close> of \<open>benchmarkGeneration\<close>.\<close>

definition recastOptions :: "GenerationOptions \<Rightarrow> RecastOptions" where
  "recastOptions options =
     \<lparr> recast_cs = cellSize options,
       recast_ch = cellHeight options,
       recast_walkableRadius = walkableRadiusVoxels options,
       recast_walkableClimb = walkableClimbVoxels options,
       recast_walkableHeight = walkableHeightVoxels options,
       recast_walkableSlopeAngle = walkableSlopeAngleDegrees options,
       recast_borderSize = borderSize options,
       recast_minRegionArea = minRegionArea options,
       recast_mergeRegionArea = mergeRegionArea options,
       recast_maxSimplificationError = maxSimplificationError options,
       recast_maxEdgeLen = maxEdgeLength options,
       recast_maxVertsPerPoly = maxVerticesPerPoly options,
       recast_detailSampleDist = detailSampleDistance options,
       recast_detailSampleMaxError = detailSampleMaxError options \<rparr>"

text \<open>The object \<open>navcatOptions\<close> of \<open>benchmarkGeneration\<close>.\<close>

definition navcatOptions :: "GenerationOptions \<Rightarrow> NavcatOptions" where
  "navcatOptions options =
     \<lparr> navcat_cellSize = cellSize options,
       navcat_cellHeight = cellHeight options,
       navcat_walkableRadiusVoxels = walkableRadiusVoxels options,
       navcat_walkableRadiusWorld = walkableRadiusWorld options,
       navcat_walkableClimbVoxels = walkableClimbVoxels options,
       navcat_walkableClimbWorld = walkableClimbWorld options,
       navcat_walkableHeightVoxels = walkableHeightVoxels options,
       navcat_walkableHeightWorld = walkableHeightWorld options,
       navcat_walkableSlopeAngleDegrees = walkableSlopeAngleDegrees options,
       navcat_borderSize = borderSize options,
       navcat_minRegionArea = minRegionArea options * minRegionArea options,
       navcat_mergeRegionArea = mergeRegionArea options * mergeRegionArea options,
       navcat_maxSimplificationError = maxSimplificationError options,
       navcat_maxEdgeLength = maxEdgeLength options,
       navcat_maxVerticesPerPoly = maxVerticesPerPoly options,
       navcat_detailSampleDistance = cellSize options * detailSampleDistance options,
       navcat_detailSampleMaxError = cellHeight options * detailSampleMaxError options \<rparr>"

section \<open>The generation, path and query harnesses\<close>

text \<open>
  The backends are parameters, each a function on the world. A build either throws
  (\<open>Inl\<close> of the error) or returns (\<open>Inr\<close> of what the library call returns), and
  leaves a world in both cases:
  \<^item> \<open>recastGenerate positions indices recastOptions\<close> is
    \<open>recastNavigationGenerators.generateSoloNavMesh\<close>, returning \<open>result.navMesh\<close>,
    which its type allows to be absent (\<open>None\<close>);
  \<^item> \<open>navcatGenerate (positions, indices) navcatOptions\<close> is
    \<open>navcatBlocks.generateSoloNavMesh\<close>, returning \<open>result.navMesh\<close> and
    \<open>result.intermediates\<close>, which its type does not allow to be absent;
  \<^item> \<open>findPath nav start end halfExtents filter\<close> is \<open>navcat.findPath\<close>;
  \<^item> \<open>computePath nav start end halfExtents\<close> is \<open>computePath\<close> of a
    \<open>NavMeshQuery\<close> made from \<open>nav\<close>, where \<open>halfExtents\<close> is \<open>None\<close> when the call
    passes no options.
  The status line, the console and the three.js visuals are left out.
\<close>

record ('rh, 'nh, 'ni) GenerationResults =
  navcatNav :: 'nh
  navcatIntermediates :: 'ni
  navcatGenTime :: BenchmarkResult
  recastNav :: 'rh
  recastGenTime :: BenchmarkResult

text \<open>
  The two closures given to \<open>benchmark\<close>, on the variables they assign and the world:
  \<open>() => { const result = ...; recastNav = result.navMesh ?? undefined; }\<close> and
  \<open>() => { const result = ...; navcatNav = result.navMesh;
  navcatIntermediates = result.intermediates; }\<close>.

  A build that throws ends \<open>benchmark\<close> at once, and the error leaves
  \<open>benchmarkGeneration\<close>. Since \<open>benchmark\<close> is modelled for an action that
  returns, the throw is kept beside the variables: the closure records the error and
  the world the throwing call left, and what remains of the two loops passes over a
  state that holds an error without touching it (the closure and the clock
  \<open>unlessThrown now\<close> both leave it as it is). After \<open>benchmark\<close>, an error held
  is the error thrown.
\<close>

definition recastGenerationFn ::
  "(real list \<Rightarrow> nat list \<Rightarrow> RecastOptions \<Rightarrow> 'w \<Rightarrow> (error + 'rh option) \<times> 'w) \<Rightarrow>
     real list \<Rightarrow> nat list \<Rightarrow> RecastOptions \<Rightarrow>
     (error option \<times> 'rh option) \<times> 'w \<Rightarrow> (error option \<times> 'rh option) \<times> 'w"
where
  "recastGenerationFn recastGenerate ps is opts =
     (\<lambda>((thrown, slot), w).
        case thrown of
          Some e \<Rightarrow> ((thrown, slot), w)
        | None \<Rightarrow>
            (case recastGenerate ps is opts w of
               (Inl e, w') \<Rightarrow> ((Some e, slot), w')
             | (Inr navMesh, w') \<Rightarrow> ((None, navMesh), w')))"

definition navcatGenerationFn ::
  "(real list \<times> nat list \<Rightarrow> NavcatOptions \<Rightarrow> 'w \<Rightarrow> (error + 'nh \<times> 'ni) \<times> 'w) \<Rightarrow>
     real list \<times> nat list \<Rightarrow> NavcatOptions \<Rightarrow>
     (error option \<times> 'nh \<times> 'ni) \<times> 'w \<Rightarrow> (error option \<times> 'nh \<times> 'ni) \<times> 'w"
where
  "navcatGenerationFn navcatGenerate navcatInput opts =
     (\<lambda>((thrown, slots), w).
        case thrown of
          Some e \<Rightarrow> ((thrown, slots), w)
        | None \<Rightarrow>
            (case navcatGenerate navcatInput opts w of
               (Inl e, w') \<Rightarrow> ((Some e, slots), w')
             | (Inr result, w') \<Rightarrow> ((None, result), w')))"

definition unlessThrown ::
  "('w \<Rightarrow> real \<times> 'w) \<Rightarrow> (error option \<times> 's) \<times> 'w \<Rightarrow> real \<times> (error option \<times> 's) \<times> 'w"
where
  "unlessThrown now =
     (\<lambda>((thrown, s), w).
        case thrown of
          Some e \<Rightarrow> (0, ((thrown, s), w))
        | None \<Rightarrow> (case now w of (t, w') \<Rightarrow> (t, ((thrown, s), w'))))"

text \<open>
  \<open>benchmarkGeneration\<close>. Both calls of \<open>benchmark\<close> take its default counts, 3 and
  10. The variable \<open>recastNav\<close> starts out \<open>undefined\<close>. The variables \<open>navcatNav\<close>
  and \<open>navcatIntermediates\<close> start out as \<open>null!\<close>: the value \<open>null\<close>, which the type
  checker is told to take for a handle; here the parameter \<open>nulls\<close>, a pair of values
  of the two types of which nothing is known. The result is the thrown error or the
  returned object, beside the world.
\<close>

definition benchmarkGeneration ::
  "(real \<Rightarrow> number) \<Rightarrow> 'nh \<times> 'ni \<Rightarrow>
   (real list \<Rightarrow> nat list \<Rightarrow> RecastOptions \<Rightarrow> 'w \<Rightarrow> (error + 'rh option) \<times> 'w) \<Rightarrow>
   (real list \<times> nat list \<Rightarrow> NavcatOptions \<Rightarrow> 'w \<Rightarrow> (error + 'nh \<times> 'ni) \<times> 'w) \<Rightarrow>
   ('w \<Rightarrow> real \<times> 'w) \<Rightarrow> real list \<Rightarrow> nat list \<Rightarrow> GenerationOptions \<Rightarrow> 'w \<Rightarrow>
     (error + ('rh, 'nh, 'ni) GenerationResults) \<times> 'w"
where
  "benchmarkGeneration rd nulls recastGenerate navcatGenerate now ps is options w =
     (case benchmark rd ''recast generation''
             (recastGenerationFn recastGenerate ps is (recastOptions options))
             (unlessThrown now) 3 10 ((None, None), w) of
        (recastGenTime', ((thrown, recastNav'), w1)) \<Rightarrow>
          (case thrown of
             Some e \<Rightarrow> (Inl e, w1)
           | None \<Rightarrow>
               (case recastNav' of
                  None \<Rightarrow> (Inl (Error ''Recast navmesh generation failed''), w1)
                | Some nav \<Rightarrow>
                    (case benchmark rd ''navcat generation''
                            (navcatGenerationFn navcatGenerate (ps, is)
                               (navcatOptions options))
                            (unlessThrown now) 3 10 ((None, nulls), w1) of
                       (navcatGenTime', ((thrown', (navcatNav', navcatIntermediates')), w2)) \<Rightarrow>
                         (case thrown' of
                            Some e \<Rightarrow> (Inl e, w2)
                          | None \<Rightarrow>
                              (Inr \<lparr> navcatNav = navcatNav',
                                     navcatIntermediates = navcatIntermediates',
                                     navcatGenTime = navcatGenTime',
                                     recastNav = nav,
                                     recastGenTime = recastGenTime' \<rparr>, w2))))))"

text \<open>
  \<open>verifyPaths\<close>: one \<open>navcat.findPath\<close>, then one \<open>computePath\<close>, on the same test
  coordinates. The result is the pair of paths.
\<close>

definition startPos :: vec3 where
  "startPos = (-3.94, 0.26, 4)"

definition endPos :: vec3 where
  "endPos = (2.52, 2.39, -2.2)"

definition halfExtents :: vec3 where
  "halfExtents = (1, 1, 1)"

definition verifyPaths ::
  "('nh \<Rightarrow> vec3 \<Rightarrow> vec3 \<Rightarrow> vec3 \<Rightarrow> 'f \<Rightarrow> 'w \<Rightarrow> 'np \<times> 'w) \<Rightarrow>
   ('rh \<Rightarrow> vec3 \<Rightarrow> vec3 \<Rightarrow> vec3 option \<Rightarrow> 'w \<Rightarrow> 'rp \<times> 'w) \<Rightarrow> 'f \<Rightarrow>
   ('rh, 'nh, 'ni) GenerationResults \<Rightarrow> 'w \<Rightarrow> ('np \<times> 'rp) \<times> 'w"
where
  "verifyPaths findPath computePath DEFAULT_QUERY_FILTER genResults w =
     (case findPath (navcatNav genResults) startPos endPos halfExtents
             DEFAULT_QUERY_FILTER w of
        (navcatPath, w1) \<Rightarrow>
          (case computePath (recastNav genResults) startPos endPos None w1 of
             (recastPath, w2) \<Rightarrow> ((navcatPath, recastPath), w2)))"

record QueryBenchmarkResults =
  navcatQueryTime :: BenchmarkResult
  recastQueryTime :: BenchmarkResult

definition benchmarkQueries ::
  "(real \<Rightarrow> number) \<Rightarrow>
   ('nh \<Rightarrow> vec3 \<Rightarrow> vec3 \<Rightarrow> vec3 \<Rightarrow> 'f \<Rightarrow> 'w \<Rightarrow> 'np \<times> 'w) \<Rightarrow>
   ('rh \<Rightarrow> vec3 \<Rightarrow> vec3 \<Rightarrow> vec3 option \<Rightarrow> 'w \<Rightarrow> 'rp \<times> 'w) \<Rightarrow> 'f \<Rightarrow>
   ('w \<Rightarrow> real \<times> 'w) \<Rightarrow> ('rh, 'nh, 'ni) GenerationResults \<Rightarrow> 'w \<Rightarrow>
     QueryBenchmarkResults \<times> 'w"
where
  "benchmarkQueries rd findPath computePath DEFAULT_QUERY_FILTER now genResults w =
     (case benchmark rd ''recast query''
             (\<lambda>w. snd (computePath (recastNav genResults) startPos endPos None w))
             now 100 10000 w of
        (recastQueryTime', w1) \<Rightarrow>
          (case benchmark rd ''navcat query''
                  (\<lambda>w. snd (findPath (navcatNav genResults) startPos endPos halfExtents
                               DEFAULT_QUERY_FILTER w))
                  now 100 10000 w1 of
             (navcatQueryTime', w2) \<Rightarrow>
               (\<lparr> navcatQueryTime = navcatQueryTime',
                   recastQueryTime = recastQueryTime' \<rparr>, w2)))"

text \<open>
  \<open>run\<close>, from the triangle buffer that \<open>setupScene\<close> returns: the generation
  benchmarks, the path verification, the query benchmarks. An error thrown on the way
  ends the run: it is what \<open>run().catch\<close> reports.
\<close>

definition run ::
  "(real \<Rightarrow> number) \<Rightarrow> 'nh \<times> 'ni \<Rightarrow>
   (real list \<Rightarrow> nat list \<Rightarrow> RecastOptions \<Rightarrow> 'w \<Rightarrow> (error + 'rh option) \<times> 'w) \<Rightarrow>
   (real list \<times> nat list \<Rightarrow> NavcatOptions \<Rightarrow> 'w \<Rightarrow> (error + 'nh \<times> 'ni) \<times> 'w) \<Rightarrow>
   ('nh \<Rightarrow> vec3 \<Rightarrow> vec3 \<Rightarrow> vec3 \<Rightarrow> 'f \<Rightarrow> 'w \<Rightarrow> 'np \<times> 'w) \<Rightarrow>
   ('rh \<Rightarrow> vec3 \<Rightarrow> vec3 \<Rightarrow> vec3 option \<Rightarrow> 'w \<Rightarrow> 'rp \<times> 'w) \<Rightarrow> 'f \<Rightarrow>
   ('w \<Rightarrow> real \<times> 'w) \<Rightarrow> real list \<Rightarrow> nat list \<Rightarrow> 'w \<Rightarrow>
     (error + ('rh, 'nh, 'ni) GenerationResults \<times> ('np \<times> 'rp) \<times> QueryBenchmarkResults) \<times> 'w"
where
  "run rd nulls recastGenerate navcatGenerate findPath computePath DEFAULT_QUERY_FILTER
       now ps is w =
     (case benchmarkGeneration rd nulls recastGenerate navcatGenerate now ps is
             createGenerationOptions w of
        (Inl e, w1) \<Rightarrow> (Inl e, w1)
      | (Inr genResults, w1) \<Rightarrow>
          (case verifyPaths findPath computePath DEFAULT_QUERY_FILTER genResults w1 of
             (pathVisuals, w2) \<Rightarrow>
               (case benchmarkQueries rd findPath computePath DEFAULT_QUERY_FILTER now
                       genResults w2 of
                  (queryResults, w3) \<Rightarrow>
                    (Inr (genResults, pathVisuals, queryResults), w3))))"

text \<open>
  A log of the backend calls, kept beside the world: each \<open>logged\<close> backend is the
  backend itself, writing down the call and its arguments before it returns or throws.
  And \<open>returning call\<close> is a call that does not throw.
\<close>

datatype ('rh, 'nh) call =
    RecastGenerate "real list" "nat list" RecastOptions
  | NavcatGenerate "real list \<times> nat list" NavcatOptions
  | FindPath 'nh vec3 vec3 vec3
  | ComputePath 'rh vec3 vec3 "vec3 option"

definition loggedRecastGenerate ::
  "(real list \<Rightarrow> nat list \<Rightarrow> RecastOptions \<Rightarrow> 'w \<Rightarrow> (error + 'rh option) \<times> 'w) \<Rightarrow>
     real list \<Rightarrow> nat list \<Rightarrow> RecastOptions \<Rightarrow> ('rh, 'nh) call list \<times> 'w \<Rightarrow>
     (error + 'rh option) \<times> ('rh, 'nh) call list \<times> 'w"
where
  "loggedRecastGenerate recastGenerate ps is opts =
     (\<lambda>(log, w). case recastGenerate ps is opts w of
        (r, w') \<Rightarrow> (r, (log @ [RecastGenerate ps is opts], w')))"

definition loggedNavcatGenerate ::
  "(real list \<times> nat list \<Rightarrow> NavcatOptions \<Rightarrow> 'w \<Rightarrow> (error + 'nh \<times> 'ni) \<times> 'w) \<Rightarrow>
     real list \<times> nat list \<Rightarrow> NavcatOptions \<Rightarrow> ('rh, 'nh) call list \<times> 'w \<Rightarrow>
     (error + 'nh \<times> 'ni) \<times> ('rh, 'nh) call list \<times> 'w"
where
  "loggedNavcatGenerate navcatGenerate navcatInput opts =
     (\<lambda>(log, w). case navcatGenerate navcatInput opts w of
        (r, w') \<Rightarrow> (r, (log @ [NavcatGenerate navcatInput opts], w')))"

definition loggedFindPath ::
  "('nh \<Rightarrow> vec3 \<Rightarrow> vec3 \<Rightarrow> vec3 \<Rightarrow> 'f \<Rightarrow> 'w \<Rightarrow> 'np \<times> 'w) \<Rightarrow>
     'nh \<Rightarrow> vec3 \<Rightarrow> vec3 \<Rightarrow> vec3 \<Rightarrow> 'f \<Rightarrow> ('rh, 'nh) call list \<times> 'w \<Rightarrow>
     'np \<times> ('rh, 'nh) call list \<times> 'w"
where
  "loggedFindPath findPath nav s e h f =
     (\<lambda>(log, w). case findPath nav s e h f w of
        (r, w') \<Rightarrow> (r, (log @ [FindPath nav s e h], w')))"

definition loggedComputePath ::
  "('rh \<Rightarrow> vec3 \<Rightarrow> vec3 \<Rightarrow> vec3 option \<Rightarrow> 'w \<Rightarrow> 'rp \<times> 'w) \<Rightarrow>
     'rh \<Rightarrow> vec3 \<Rightarrow> vec3 \<Rightarrow> vec3 option \<Rightarrow> ('rh, 'nh) call list \<times> 'w \<Rightarrow>
     'rp \<times> ('rh, 'nh) call list \<times> 'w"
where
  "loggedComputePath computePath nav s e h =
     (\<lambda>(log, w). case computePath nav s e h w of
        (r, w') \<Rightarrow> (r, (log @ [ComputePath nav s e h], w')))"

definition returning :: "('w \<Rightarrow> 'a \<times> 'w) \<Rightarrow> 'w \<Rightarrow> (error + 'a) \<times> 'w" where
  "returning call w = (case call w of (r, w') \<Rightarrow> (Inr r, w'))"

text \<open>
  Whether two logged queries were given the same start, end and search half-extents.
\<close>

fun sameQueryArguments :: "('rh, 'nh) call \<Rightarrow> ('rh, 'nh) call \<Rightarrow> bool" where
  "sameQueryArguments (FindPath nav s e h) (ComputePath nav' s' e' h') =
     (s = s' \<and> e = e' \<and> Some h = h')"
| "sameQueryArguments _ _ = False"

section \<open>Properties of the benchmark engine\<close>

subsection \<open>The two loops\<close>

lemma warmupLoop_funpow: "warmupLoop fn k i w = (fn ^^ (k - i)) w"
proof (induction fn k i w rule: warmupLoop.induct)
  case (1 fn k i w)
  show ?case
  proof (cases "i < k")
    case True
    then have "k - i = Suc (k - (i + 1))" by simp
    with 1 True show ?thesis
      by (subst warmupLoop.simps) (simp add: funpow_swap1)
  next
    case False
    then show ?thesis by (subst warmupLoop.simps) simp
  qed
qed

lemma runLoop_eq:
  "runLoop fn now n i ts w =
     (ts @ map (\<lambda>j. elapsed fn now ((timedCall fn now ^^ j) w)) [0..<n - i],
      (timedCall fn now ^^ (n - i)) w)"
proof (induction fn now n i ts w rule: runLoop.induct)
  case (1 fn now n i ts w)
  show ?case
  proof (cases "i < n")
    case True
    obtain s w1 where a: "now w = (s, w1)" by (cases "now w")
    obtain e w2 where b: "now (fn w1) = (e, w2)" by (cases "now (fn w1)")
    have c: "n - i = Suc (n - (i + 1))" using True by simp
    have d: "timedCall fn now w = w2" using a b by (simp add: timedCall_def)
    have e: "elapsed fn now w = e - s" using a b by (simp add: elapsed_def)
    have f: "map (\<lambda>j. elapsed fn now ((timedCall fn now ^^ j) w)) [0..<Suc m] =
        elapsed fn now w # map (\<lambda>j. elapsed fn now ((timedCall fn now ^^ j) (timedCall fn now w))) [0..<m]" for m
      by (simp only: upt_conv_Cons [of 0 "Suc m"] map_Suc_upt [symmetric])
         (simp add: funpow_swap1 del: upt_Suc)
    have "runLoop fn now n i ts w = runLoop fn now n (i + 1) (ts @ [e - s]) w2"
      using True a b by (subst runLoop.simps) simp
    also note 1 [OF True a [symmetric] b [symmetric]]
    finally show ?thesis
      by (simp only: c f d e funpow_Suc_right o_apply) simp
  next
    case False
    then show ?thesis by (subst runLoop.simps) simp
  qed
qed

lemma warmupLoop_counted:
  "warmupLoop (counted fn) k i (c, w) = (c + (k - i), warmupLoop fn k i w)"
proof (induction fn k i w arbitrary: c rule: warmupLoop.induct)
  case (1 fn k i w)
  show ?case
  proof (cases "i < k")
    case True
    have "warmupLoop (counted fn) k i (c, w) = warmupLoop (counted fn) k (i + 1) (c + 1, fn w)"
      using True by (subst warmupLoop.simps) (simp add: counted_def)
    also have "\<dots> = (c + 1 + (k - (i + 1)), warmupLoop fn k (i + 1) (fn w))"
      by (rule 1 [OF True])
    also have "warmupLoop fn k (i + 1) (fn w) = warmupLoop fn k i w"
      using True by (subst (2) warmupLoop.simps) simp
    finally show ?thesis using True by simp
  next
    case False
    then show ?thesis by (simp add: warmupLoop.simps [of _ k i])
  qed
qed

lemma runLoop_counted:
  "runLoop (counted fn) (onWorld now) n i ts (c, w) =
     (fst (runLoop fn now n i ts w), c + (n - i), snd (runLoop fn now n i ts w))"
proof (induction fn now n i ts w arbitrary: c rule: runLoop.induct)
  case (1 fn now n i ts w)
  show ?case
  proof (cases "i < n")
    case True
    obtain s w1 where a: "now w = (s, w1)" by (cases "now w")
    obtain e w2 where b: "now (fn w1) = (e, w2)" by (cases "now (fn w1)")
    have "runLoop (counted fn) (onWorld now) n i ts (c, w) =
        runLoop (counted fn) (onWorld now) n (i + 1) (ts @ [e - s]) (c + 1, w2)"
      using True a b by (subst runLoop.simps) (simp add: counted_def onWorld_def)
    also note 1 [OF True a [symmetric] b [symmetric]]
    also have "runLoop fn now n (i + 1) (ts @ [e - s]) w2 = runLoop fn now n i ts w"
      using True a b by (subst (2) runLoop.simps) simp
    finally show ?thesis using True by simp
  next
    case False
    then show ?thesis by (simp add: runLoop.simps [of _ _ n i])
  qed
qed


lemma benchmark_run:
  "runLoop fn now n 0 [] (warmupLoop fn k 0 w) =
     (map (\<lambda>j. elapsed fn now ((timedCall fn now ^^ j) ((fn ^^ k) w))) [0..<n],
      (timedCall fn now ^^ n) ((fn ^^ k) w))"
  by (simp add: runLoop_eq warmupLoop_funpow)

lemma benchmark_state:
  "snd (benchmark rd nm fn now k n w) = (timedCall fn now ^^ n) ((fn ^^ k) w)"
  by (simp add: benchmark_def benchmark_run Let_def)

lemma benchmark_times:
  "times_ms (fst (benchmark rd nm fn now k n w)) =
     map (\<lambda>j. elapsed fn now ((timedCall fn now ^^ j) ((fn ^^ k) w))) [0..<n]"
  by (simp add: benchmark_def benchmark_run Let_def)

lemma benchmark_length: "length (times_ms (fst (benchmark rd nm fn now k n w))) = n"
  by (simp add: benchmark_times)

subsection \<open>The statistics\<close>

lemma benchmark_fields:
  "fst (benchmark rd nm fn now k n w) = r \<Longrightarrow>
   median r = js_index (sort (times_ms r)) (int (length (times_ms r)) div 2) \<and>
   min_ms r = js_index (sort (times_ms r)) 0 \<and>
   max_ms r = js_index (sort (times_ms r)) (int (length (times_ms r)) - 1) \<and>
   mean r = js_div rd (foldl (\<lambda>a b. js_add rd a (Fin b)) (Fin 0) (times_ms r))
              (Fin (real (length (times_ms r)))) \<and>
   stdDev r = js_sqrt rd (js_div rd
     (foldl (\<lambda>sum time. js_add rd sum (js_pow2 rd (js_sub rd (Fin time) (mean r))))
        (Fin 0) (times_ms r))
     (Fin (real (length (times_ms r)))))"
  by (auto simp add: benchmark_def Let_def split: prod.splits)

text \<open>
  C1. With at least one measured run, \<open>median\<close> is the element at index
  \<open>floor(runs / 2)\<close> of the ascending sort of \<open>times\<close>: the upper middle element
  when \<open>runs\<close> is even.
\<close>

theorem benchmark_median:
  assumes "1 \<le> n" and "r = fst (benchmark rd nm fn now k n w)"
  shows "median r = Some (sort (times_ms r) ! (n div 2))"
proof -
  have len: "length (times_ms r) = n"
    using assms(2) by (simp add: benchmark_length)
  have "int n div 2 < int n" using assms(1) by simp
  moreover have "nat (int n div 2) = n div 2" by (simp add: nat_div_distrib)
  ultimately show ?thesis
    using benchmark_fields [OF assms(2) [symmetric]] by (simp add: js_index_def len)
qed

text \<open>Four runs that take 1, 2, 3 and 4 ms: the median is 3, not 2.5.\<close>

theorem benchmark_median_witness:
  "(1::nat) \<le> 4 \<and>
   times_ms (fst (benchmark Fin ''t'' id scriptedClock 3 4 [0, 1, 1, 3, 3, 6, 6, 10])) = [1, 2, 3, 4] \<and>
   median (fst (benchmark Fin ''t'' id scriptedClock 3 4 [0, 1, 1, 3, 3, 6, 6, 10])) = Some 3"
proof -
  have t: "times_ms (fst (benchmark Fin ''t'' id scriptedClock 3 4 [0, 1, 1, 3, 3, 6, 6, 10])) = [1, 2, 3, 4]"
    by (simp add: benchmark_def warmupLoop.simps runLoop.simps Let_def)
  show ?thesis
    using benchmark_median [of 4 _ Fin "''t''" id scriptedClock 3 "[0, 1, 1, 3, 3, 6, 6, 10]", OF _ refl]
    by (simp add: t)
qed

subsection \<open>Mean and standard deviation\<close>














text \<open>
  C3. \<open>benchmark\<close> invokes \<open>fn\<close> exactly \<open>warmupRuns + runs\<close> times: run with a
  counter of the invocations, it returns the same result and leaves the same world, and
  the counter has grown by \<open>warmupRuns + runs\<close>. The world it leaves is that of
  \<open>warmupRuns\<close> bare invocations followed by \<open>runs\<close> timed ones; \<open>times\<close> has
  length \<open>runs\<close> and holds, in the order of execution, the time around each timed
  invocation; and the warmup invocations count for nothing in the result beyond the
  world they leave to the timed ones.
\<close>

theorem benchmark_invocations:
  "benchmark rd nm (counted fn) (onWorld now) k n (c, w) =
     (fst (benchmark rd nm fn now k n w), c + (k + n), snd (benchmark rd nm fn now k n w)) \<and>
   snd (benchmark rd nm fn now k n w) = (timedCall fn now ^^ n) ((fn ^^ k) w) \<and>
   length (times_ms (fst (benchmark rd nm fn now k n w))) = n \<and>
   times_ms (fst (benchmark rd nm fn now k n w)) =
     map (\<lambda>j. elapsed fn now ((timedCall fn now ^^ j) ((fn ^^ k) w))) [0..<n] \<and>
   fst (benchmark rd nm fn now k n w) =
     (fst (benchmark rd nm fn now 0 n ((fn ^^ k) w))) \<lparr> warmupRuns := k \<rparr>"
proof -
  have "benchmark rd nm (counted fn) (onWorld now) k n (c, w) =
      (fst (benchmark rd nm fn now k n w), c + (k + n), snd (benchmark rd nm fn now k n w))"
    by (simp add: benchmark_def warmupLoop_counted runLoop_counted Let_def
        split: prod.splits)
  moreover have "fst (benchmark rd nm fn now k n w) =
      (fst (benchmark rd nm fn now 0 n ((fn ^^ k) w))) \<lparr> warmupRuns := k \<rparr>"
    by (simp add: benchmark_def benchmark_run Let_def)
  ultimately show ?thesis
    by (simp add: benchmark_state benchmark_length benchmark_times)
qed

text \<open>
  C4. With at least one measured run, \<open>min\<close> is the first and \<open>max\<close> the last
  element of the ascending sort of \<open>times\<close>, and \<open>min \<le> median \<le> max\<close>.
\<close>

theorem benchmark_min_max:
  assumes "1 \<le> n" and "r = fst (benchmark rd nm fn now k n w)"
  shows "min_ms r = Some (sort (times_ms r) ! 0) \<and>
         max_ms r = Some (sort (times_ms r) ! (n - 1)) \<and>
         (\<exists>lo md hi. min_ms r = Some lo \<and> median r = Some md \<and> max_ms r = Some hi \<and>
            lo \<le> md \<and> md \<le> hi)"
proof -
  have len: "length (times_ms r) = n"
    using assms(2) by (simp add: benchmark_length)
  have f: "median r = Some (sort (times_ms r) ! (n div 2))"
          "min_ms r = Some (sort (times_ms r) ! 0)"
          "max_ms r = Some (sort (times_ms r) ! (n - 1))"
    using benchmark_fields [OF assms(2) [symmetric]] assms(1)
    by (simp_all add: js_index_def len nat_div_distrib nat_diff_distrib)
  have s: "sorted (sort (times_ms r))" by simp
  have "sort (times_ms r) ! 0 \<le> sort (times_ms r) ! (n div 2)"
    using assms(1) by (intro sorted_nth_mono [OF s]) (simp_all add: len)
  moreover have "sort (times_ms r) ! (n div 2) \<le> sort (times_ms r) ! (n - 1)"
  proof (rule sorted_nth_mono [OF s])
    show "n div 2 \<le> n - 1" using assms(1) by arith
    show "n - 1 < length (sort (times_ms r))" using assms(1) by (simp add: len)
  qed
  ultimately show ?thesis using f by simp
qed

theorem benchmark_min_max_witness:
  "(1::nat) \<le> 3 \<and>
   times_ms (fst (benchmark Fin ''t'' id scriptedClock 0 3 [0, 5, 5, 6, 6, 9])) = [5, 1, 3] \<and>
   min_ms (fst (benchmark Fin ''t'' id scriptedClock 0 3 [0, 5, 5, 6, 6, 9])) = Some 1 \<and>
   median (fst (benchmark Fin ''t'' id scriptedClock 0 3 [0, 5, 5, 6, 6, 9])) = Some 3 \<and>
   max_ms (fst (benchmark Fin ''t'' id scriptedClock 0 3 [0, 5, 5, 6, 6, 9])) = Some 5"
proof -
  have t: "times_ms (fst (benchmark Fin ''t'' id scriptedClock 0 3 [0, 5, 5, 6, 6, 9])) = [5, 1, 3]"
    by (simp add: benchmark_def warmupLoop.simps runLoop.simps Let_def)
  have m: "median (fst (benchmark Fin ''t'' id scriptedClock 0 3 [0, 5, 5, 6, 6, 9])) = Some 3"
    by (simp add: benchmark_def warmupLoop.simps runLoop.simps Let_def js_index_def)
  show ?thesis
    using benchmark_min_max [of 3 _ Fin "''t''" id scriptedClock 0 "[0, 5, 5, 6, 6, 9]", OF _ refl]
    by (simp add: t m)
qed

text \<open>
  C10. With \<open>runs = 0\<close>, \<open>benchmark\<close> still returns: \<open>times\<close> is empty, \<open>mean\<close>
  and \<open>stdDev\<close> are \<open>NaN\<close>, and \<open>median\<close>, \<open>min\<close> and \<open>max\<close> are \<open>undefined\<close>.
\<close>

theorem benchmark_zero_runs:
  "times_ms (fst (benchmark rd nm fn now k 0 w)) = [] \<and>
   mean (fst (benchmark rd nm fn now k 0 w)) = NaN \<and>
   stdDev (fst (benchmark rd nm fn now k 0 w)) = NaN \<and>
   median (fst (benchmark rd nm fn now k 0 w)) = None \<and>
   min_ms (fst (benchmark rd nm fn now k 0 w)) = None \<and>
   max_ms (fst (benchmark rd nm fn now k 0 w)) = None"
  by (simp add: benchmark_def benchmark_run Let_def js_index_def)

section \<open>Properties of the geometry extractor\<close>

subsection \<open>The buffer of a scene graph\<close>

lemma map_filter_concat:
  "List.map_filter f (concat xss) = concat (map (List.map_filter f) xss)"
  by (induction xss) (simp_all add: List.map_filter_def)

lemma traverse_meshes: "List.map_filter meshOf (traverse object) = preorderMeshes object"
proof (induction object rule: traverse.induct)
  case (1 mesh children)
  have c: "map (List.map_filter meshOf \<circ> traverse) children = map preorderMeshes children"
    using 1 by (intro map_cong) simp_all
  show ?case
    by (cases mesh) (simp_all add: map_filter_concat c)
qed

lemma expectedIndices_Cons:
  "expectedIndices (m # ms) =
     localIndices m @ map (\<lambda>i. i + vertexCount m) (expectedIndices ms)"
proof -
  have "[0..<length (m # ms)] = 0 # map Suc [0..<length ms]"
    by (simp add: upt_conv_Cons map_Suc_upt del: upt_Suc)
  then show ?thesis
    by (simp add: expectedIndices_def map_concat o_def ac_simps del: upt_Suc)
qed

lemma gatherNodes_eq:
  "list_all (\<lambda>m. position m \<noteq> None) (List.map_filter meshOf nodes) \<Longrightarrow>
   gatherNodes am nodes (ps, is, off) =
     Inr (ps @ concat (map (localPositions am) (List.map_filter meshOf nodes)),
          is @ map (\<lambda>i. i + off) (expectedIndices (List.map_filter meshOf nodes)),
          off + sum_list (map vertexCount (List.map_filter meshOf nodes)))"
proof (induction am nodes "(ps, is, off)" arbitrary: ps "is" off rule: gatherNodes.induct)
  case (1 am)
  then show ?case by (simp add: expectedIndices_def)
next
  case (2 am children rest)
  then show ?case by simp
next
  case (3 am mesh children rest)
  from "3.prems" obtain pos where p: "position mesh = Some pos"
    by auto
  have g: "gatherMesh am mesh (ps, is, off) =
      Inr (ps @ localPositions am mesh, is @ map (\<lambda>i. i + off) (localIndices mesh),
           off + vertexCount mesh)"
    by (cases "index mesh")
      (simp_all add: gatherMesh_def p localPositions_def localIndices_def vertexCount_def)
  have "gatherNodes am rest
      (ps @ localPositions am mesh, is @ map (\<lambda>i. i + off) (localIndices mesh),
       off + vertexCount mesh) =
    Inr ((ps @ localPositions am mesh) @
           concat (map (localPositions am) (List.map_filter meshOf rest)),
         (is @ map (\<lambda>i. i + off) (localIndices mesh)) @
           map (\<lambda>i. i + (off + vertexCount mesh))
             (expectedIndices (List.map_filter meshOf rest)),
         (off + vertexCount mesh) + sum_list (map vertexCount (List.map_filter meshOf rest)))"
    using "3.prems" by (intro "3.hyps" [OF g]) simp_all
  then show ?case
    by (simp add: g expectedIndices_Cons add.assoc add.commute)
qed

text \<open>
  C8. For every scene graph whose meshes all have vertices to read, the extractor
  returns a buffer: its positions are the transformed coordinates of the meshes in
  pre-order, three for each vertex, and its indices are those of each mesh (\<open>0\<close> to
  \<open>vertexCount - 1\<close> when it has no index list), offset by the number of vertices of
  all the meshes visited before it. So when the meshes of the scene graph are two, of
  three vertices each and without index list, the buffer has six positions and the
  indices 0 to 5.
\<close>

theorem gather_two_siblings:
  assumes "list_all (\<lambda>m. position m \<noteq> None) (preorderMeshes object)"
  shows "\<exists>buf. gatherTrianglesFromScene am fr object = Inr buf \<and>
     positions buf = map fr (concat (map (localPositions am) (preorderMeshes object))) \<and>
     length (positions buf) = 3 * sum_list (map vertexCount (preorderMeshes object)) \<and>
     indices buf = map (\<lambda>i. i mod 2 ^ 32) (expectedIndices (preorderMeshes object)) \<and>
     (map (\<lambda>m. (vertexCount m, index m)) (preorderMeshes object) = [(3, None), (3, None)] \<longrightarrow>
        length (positions buf) = 3 * 6 \<and> indices buf = [0, 1, 2, 3, 4, 5])"
proof -
  let ?ms = "preorderMeshes object"
  let ?buf = "\<lparr> positions = map fr (concat (map (localPositions am) ?ms)),
                indices = map (\<lambda>i. i mod 2 ^ 32) (expectedIndices ?ms) \<rparr>"
  have g: "gatherTrianglesFromScene am fr object = Inr ?buf"
    using assms
    by (simp add: gatherTrianglesFromScene_def traverse_meshes
        gatherNodes_eq [where nodes = "traverse object", unfolded traverse_meshes])
  have len: "length (concat (map (localPositions am) ms)) = 3 * sum_list (map vertexCount ms)"
    for ms :: "'a Mesh list"
  proof (induction ms)
    case Nil
    then show ?case by simp
  next
    case (Cons m ms)
    have "length (concat (map (\<lambda>v. case am (matrixWorld m) v of (x, y, z) \<Rightarrow> [x, y, z]) pos))
        = 3 * length pos" for pos
      by (induction pos) (simp_all split: prod.splits)
    then have "length (localPositions am m) = 3 * vertexCount m"
      by (simp add: localPositions_def vertexCount_def split: option.splits)
    with Cons show ?case by simp
  qed
  have two: "length (positions ?buf) = 3 * 6 \<and> indices ?buf = [0, 1, 2, 3, 4, 5]"
    if "map (\<lambda>m. (vertexCount m, index m)) ?ms = [(3, None), (3, None)]"
  proof -
    from that obtain m1 m2 where ms: "?ms = [m1, m2]"
      and m: "vertexCount m1 = 3" "index m1 = None" "vertexCount m2 = 3" "index m2 = None"
      by auto
    have "expectedIndices [m1, m2] = [0, 1, 2, 3, 4, 5]"
      by (simp add: expectedIndices_Cons localIndices_def m expectedIndices_def
          upt_conv_Cons)
    then show ?thesis
      by (simp add: ms len [of "[m1, m2]", simplified] m)
  qed
  show ?thesis
    using g len [of ?ms] two by (intro exI [of _ ?buf]) simp
qed

text \<open>
  Two sibling meshes below a group that has an empty sibling of its own: six
  positions and the indices 0 to 5.
\<close>

theorem gather_two_siblings_witness:
  "list_all (\<lambda>m. position m \<noteq> None)
     (preorderMeshes (Object3D None
        [Object3D None [],
         Object3D None
           [Object3D (Some \<lparr> position = Some [(0, 0, 0), (1, 0, 0), (0, 1, 0)],
                             index = None, matrixWorld = () \<rparr>) [],
            Object3D (Some \<lparr> position = Some [(0, 0, 1), (1, 0, 1), (0, 1, 1)],
                             index = None, matrixWorld = () \<rparr>) []]])) \<and>
   gatherTrianglesFromScene (\<lambda>m v. v) id
     (Object3D None
        [Object3D None [],
         Object3D None
           [Object3D (Some \<lparr> position = Some [(0, 0, 0), (1, 0, 0), (0, 1, 0)],
                             index = None, matrixWorld = () \<rparr>) [],
            Object3D (Some \<lparr> position = Some [(0, 0, 1), (1, 0, 1), (0, 1, 1)],
                             index = None, matrixWorld = () \<rparr>) []]]) =
     Inr \<lparr> positions = [0, 0, 0, 1, 0, 0, 0, 1, 0, 0, 0, 1, 1, 0, 1, 0, 1, 1],
           indices = [0, 1, 2, 3, 4, 5] \<rparr>"
proof -
  let ?scene = "Object3D None
        [Object3D None [],
         Object3D None
           [Object3D (Some \<lparr> position = Some [(0 :: real, 0 :: real, 0 :: real), (1, 0, 0), (0, 1, 0)],
                             index = None, matrixWorld = () \<rparr>) [],
            Object3D (Some \<lparr> position = Some [(0, 0, 1), (1, 0, 1), (0, 1, 1)],
                             index = None, matrixWorld = () \<rparr>) []]]"
  have a: "list_all (\<lambda>m. position m \<noteq> None) (preorderMeshes ?scene)"
    by simp
  have b: "map (\<lambda>m. (vertexCount m, index m)) (preorderMeshes ?scene) = [(3, None), (3, None)]"
    by (simp add: vertexCount_def)
  from gather_two_siblings [OF a, of "\<lambda>m v. v" id] b
  obtain buf where "gatherTrianglesFromScene (\<lambda>m v. v) id ?scene = Inr buf"
    and "positions buf = map id (concat (map (localPositions (\<lambda>m v. v)) (preorderMeshes ?scene)))"
    and "indices buf = [0, 1, 2, 3, 4, 5]"
    by auto
  then have "gatherTrianglesFromScene (\<lambda>m v. v) id ?scene =
     Inr \<lparr> positions = [0, 0, 0, 1, 0, 0, 0, 1, 0, 0, 0, 1, 1, 0, 1, 0, 1, 1],
           indices = [0, 1, 2, 3, 4, 5] \<rparr>"
    by (cases buf) (simp add: localPositions_def)
  with a show ?thesis by simp
qed

subsection \<open>The invariant of the buffer\<close>

lemma gatherNodes_invariant:
  assumes "gatherNodes am nodes acc = Inr acc'"
    and "P acc"
    and "\<And>mesh a a'. mesh \<in> set (List.map_filter meshOf nodes) \<Longrightarrow> P a \<Longrightarrow>
           gatherMesh am mesh a = Inr a' \<Longrightarrow> P a'"
  shows "P acc'"
  using assms
proof (induction am nodes acc rule: gatherNodes.induct)
  case (1 am acc)
  then show ?case by simp
next
  case (2 am children rest acc)
  then show ?case by simp
next
  case (3 am mesh children rest acc)
  from "3.prems"(1) obtain a where a: "gatherMesh am mesh acc = Inr a"
    by (cases "gatherMesh am mesh acc") simp_all
  have "gatherNodes am rest a = Inr acc'"
    using "3.prems"(1) a by simp
  moreover have "P a"
    using "3.prems"(3) [of mesh acc a] "3.prems"(2) a by simp
  moreover have "P a'" if "m \<in> set (List.map_filter meshOf rest)" and "P b"
      and "gatherMesh am m b = Inr a'" for m b a'
    using "3.prems"(3) [of m b a'] that by simp
  ultimately show ?case
    by (rule "3.IH" [OF a])
qed

lemma gatherMesh_positions:
  assumes "gatherMesh am mesh (ps, is, off) = Inr (ps', is', off')"
    and "length ps = 3 * off"
  shows "length ps' = 3 * off'"
proof -
  from assms(1) obtain pos where p: "position mesh = Some pos"
    by (cases "position mesh") (simp_all add: gatherMesh_def)
  have "length (concat (map (\<lambda>v. case am (matrixWorld mesh) v of (x, y, z) \<Rightarrow> [x, y, z]) pos))
      = 3 * length pos"
    by (induction pos) (simp_all split: prod.splits)
  then show ?thesis
    using assms by (auto simp add: gatherMesh_def p)
qed

lemma gatherMesh_range:
  assumes "gatherMesh am mesh (ps, is, off) = Inr (ps', is', off')"
    and "indicesInRange mesh"
    and "list_all (\<lambda>i. i < off) is"
  shows "list_all (\<lambda>i. i < off') is'"
proof -
  from assms(1) obtain pos where p: "position mesh = Some pos"
    by (cases "position mesh") (simp_all add: gatherMesh_def)
  define new where
    "new = (case index mesh of Some idx \<Rightarrow> map (\<lambda>i. i + off) idx
            | None \<Rightarrow> map (\<lambda>i. i + off) [0..<length pos])"
  have r: "is' = is @ new" "off' = off + length pos"
    using assms(1) by (simp_all add: gatherMesh_def p new_def)
  have old: "i < off'" if "i \<in> set is" for i
    using assms(3) that r(2) by (simp add: list_all_iff trans_less_add1)
  have "i < off'" if "i \<in> set new" for i
  proof (cases "index mesh")
    case None
    then show ?thesis using that r(2) by (auto simp add: new_def)
  next
    case (Some idx)
    then have "\<forall>j\<in>set idx. j < length pos"
      using assms(2) by (simp add: indicesInRange_def p list_all_iff)
    then show ?thesis using that r(2) Some by (auto simp add: new_def)
  qed
  with old show ?thesis by (auto simp add: r(1) list_all_iff)
qed

lemma gatherMesh_triangles:
  assumes "gatherMesh am mesh (ps, is, off) = Inr (ps', is', off')"
    and "wholeTriangles mesh"
    and "length is mod 3 = 0"
  shows "length is' mod 3 = 0"
proof -
  from assms(1) obtain pos where p: "position mesh = Some pos"
    by (cases "position mesh") (simp_all add: gatherMesh_def)
  show ?thesis
  proof (cases "index mesh")
    case None
    then show ?thesis
      using assms by (auto simp add: gatherMesh_def p wholeTriangles_def mod_add_eq [symmetric, of "length is"])
  next
    case (Some idx)
    then show ?thesis
      using assms by (auto simp add: gatherMesh_def p wholeTriangles_def mod_add_eq [symmetric, of "length is"])
  qed
qed

text \<open>
  C9, as stated, fails: an index list that points past the vertices of its mesh is
  copied as it is, and a mesh without index list whose vertex count is not a multiple
  of three yields as many indices.
\<close>

theorem gather_invariant_counterexample:
  "gatherTrianglesFromScene (\<lambda>m v. v) id
     (Object3D (Some \<lparr> position = Some [(0, 0, 0), (1, 0, 0), (0, 1, 0)],
                       index = Some [0, 1, 5], matrixWorld = () \<rparr>) [])
     = Inr \<lparr> positions = [0, 0, 0, 1, 0, 0, 0, 1, 0], indices = [0, 1, 5] \<rparr> \<and>
   \<not> bufferInvariant \<lparr> positions = [0, 0, 0, 1, 0, 0, 0, 1, 0], indices = [0, 1, 5] \<rparr> \<and>
   gatherTrianglesFromScene (\<lambda>m v. v) id
     (Object3D (Some \<lparr> position = Some [(0, 0, 0), (1, 0, 0), (0, 1, 0), (1, 1, 0)],
                       index = None, matrixWorld = () \<rparr>) [])
     = Inr \<lparr> positions = [0, 0, 0, 1, 0, 0, 0, 1, 0, 1, 1, 0], indices = [0, 1, 2, 3] \<rparr> \<and>
   \<not> bufferInvariant
       \<lparr> positions = [0, 0, 0, 1, 0, 0, 0, 1, 0, 1, 1, 0], indices = [0, 1, 2, 3] \<rparr>"
  by (simp add: gatherTrianglesFromScene_def gatherMesh_def bufferInvariant_def
      upt_rec [of 0] upt_rec [of 1] upt_rec [of 2] upt_rec [of 3])

text \<open>
  C9, amended. Whenever the extractor returns a buffer, the number of coordinates is a
  multiple of three; every index is less than the number of positions if, in every
  mesh, the explicit indices are less than the vertex count of that mesh; and the
  number of indices is a multiple of three if every mesh is a list of triangles.
\<close>

theorem gather_invariant:
  assumes "gatherTrianglesFromScene am fr object = Inr buf"
  shows "length (positions buf) mod 3 = 0 \<and>
         (list_all indicesInRange (meshes object) \<longrightarrow>
            list_all (\<lambda>i. i < length (positions buf) div 3) (indices buf)) \<and>
         (list_all wholeTriangles (meshes object) \<longrightarrow> length (indices buf) mod 3 = 0)"
proof -
  from assms obtain ps "is" off where
    g: "gatherNodes am (traverse object) ([], [], 0) = Inr (ps, is, off)" and
    b: "buf = \<lparr> positions = map fr ps, indices = map (\<lambda>i. i mod 2 ^ 32) is \<rparr>"
    by (auto simp add: gatherTrianglesFromScene_def split: sum.splits)
  have len: "length ps = 3 * off"
    using gatherNodes_invariant
      [OF g, where P = "\<lambda>(ps, is, off). length ps = 3 * off"]
    by (auto intro: gatherMesh_positions)
  have rng: "list_all (\<lambda>i. i < off) is" if t: "list_all indicesInRange (meshes object)"
  proof -
    have "(\<lambda>(ps, is, off). list_all (\<lambda>i. i < off) is) (ps, is, off)"
    proof (rule gatherNodes_invariant [OF g])
      show "(\<lambda>(ps, is, off). list_all (\<lambda>i. i < off) is) ([], [], 0)" by simp
    next
      fix mesh a a'
      assume m: "mesh \<in> set (List.map_filter meshOf (traverse object))"
        and a: "(\<lambda>(ps, is, off). list_all (\<lambda>i. i < off) is) a"
        and s: "gatherMesh am mesh a = Inr a'"
      have "indicesInRange mesh" using t m by (simp add: meshes_def list_all_iff)
      then show "(\<lambda>(ps, is, off). list_all (\<lambda>i. i < off) is) a'"
        using a s by (cases a, cases a') (auto intro: gatherMesh_range)
    qed
    then show ?thesis by simp
  qed
  have tri: "length is mod 3 = 0" if t: "list_all wholeTriangles (meshes object)"
  proof -
    have "(\<lambda>(ps, is, off). length is mod 3 = 0) (ps, is, off)"
    proof (rule gatherNodes_invariant [OF g])
      show "(\<lambda>(ps, is, off). length is mod 3 = 0) ([], [], 0)" by simp
    next
      fix mesh a a'
      assume m: "mesh \<in> set (List.map_filter meshOf (traverse object))"
        and a: "(\<lambda>(ps, is, off). length is mod 3 = 0) a"
        and s: "gatherMesh am mesh a = Inr a'"
      have "wholeTriangles mesh" using t m by (simp add: meshes_def list_all_iff)
      then show "(\<lambda>(ps, is, off). length is mod 3 = 0) a'"
        using a s by (cases a, cases a') (auto intro: gatherMesh_triangles)
    qed
    then show ?thesis by simp
  qed
  have "list_all (\<lambda>i. i < off) (map (\<lambda>i. i mod 2 ^ 32) is)" if "list_all (\<lambda>i. i < off) is"
    using that by (auto simp add: list_all_iff intro: le_less_trans [OF mod_less_eq_dividend])
  with len rng tri show ?thesis by (simp add: b)
qed

theorem gather_invariant_witness:
  "gatherTrianglesFromScene (\<lambda>m v. v) id
     (Object3D (Some \<lparr> position = Some [(0, 0, 0), (1, 0, 0), (0, 1, 0)],
                       index = Some [0, 1, 2, 2, 1, 0], matrixWorld = () \<rparr>)
        [Object3D (Some \<lparr> position = Some [(0, 0, 1), (1, 0, 1), (0, 1, 1)],
                          index = None, matrixWorld = () \<rparr>) []])
     = Inr \<lparr> positions = [0, 0, 0, 1, 0, 0, 0, 1, 0, 0, 0, 1, 1, 0, 1, 0, 1, 1],
             indices = [0, 1, 2, 2, 1, 0, 3, 4, 5] \<rparr> \<and>
   list_all indicesInRange
     (meshes (Object3D (Some \<lparr> position = Some [(0, 0, 0), (1, 0, 0), (0, 1, 0)],
                       index = Some [0, 1, 2, 2, 1, 0], matrixWorld = () \<rparr>)
        [Object3D (Some \<lparr> position = Some [(0, 0, 1), (1, 0, 1), (0, 1, 1)],
                          index = None, matrixWorld = () \<rparr>) []])) \<and>
   list_all wholeTriangles
     (meshes (Object3D (Some \<lparr> position = Some [(0, 0, 0), (1, 0, 0), (0, 1, 0)],
                       index = Some [0, 1, 2, 2, 1, 0], matrixWorld = () \<rparr>)
        [Object3D (Some \<lparr> position = Some [(0, 0, 1), (1, 0, 1), (0, 1, 1)],
                          index = None, matrixWorld = () \<rparr>) []])) \<and>
   bufferInvariant \<lparr> positions = [0, 0, 0, 1, 0, 0, 0, 1, 0, 0, 0, 1, 1, 0, 1, 0, 1, 1],
                     indices = [0, 1, 2, 2, 1, 0, 3, 4, 5] \<rparr>"
proof -
  let ?scene = "Object3D (Some \<lparr> position = Some [(0, 0, 0), (1, 0, 0), (0, 1, 0)],
                       index = Some [0, 1, 2, 2, 1, 0], matrixWorld = () \<rparr>)
        [Object3D (Some \<lparr> position = Some [(0 :: real, 0 :: real, 1 :: real), (1, 0, 1), (0, 1, 1)],
                          index = None, matrixWorld = () \<rparr>) []]"
  let ?buf = "\<lparr> positions = [0, 0, 0, 1, 0, 0, 0, 1, 0, 0, 0, 1, 1, 0, 1, 0, 1, 1],
                     indices = [0, 1, 2, 2, 1, 0, 3, 4, 5] \<rparr>"
  have g: "gatherTrianglesFromScene (\<lambda>m v. v) id ?scene = Inr ?buf"
    by (simp add: gatherTrianglesFromScene_def gatherMesh_def
        upt_rec [of 0] upt_rec [of 1] upt_rec [of 2])
  have r: "list_all indicesInRange (meshes ?scene)"
    by (simp add: meshes_def indicesInRange_def)
  have t: "list_all wholeTriangles (meshes ?scene)"
    by (simp add: meshes_def wholeTriangles_def)
  from gather_invariant [OF g] r t have "bufferInvariant ?buf"
    by (simp add: bufferInvariant_def)
  with g r t show ?thesis by simp
qed

section \<open>Properties of the harnesses\<close>

subsection \<open>The calls a benchmark makes\<close>

lemma funpow_fixed: "f s = s \<Longrightarrow> (f ^^ n) s = s"
  by (induction n) simp_all

lemma funpow_thrown:
  fixes f :: "(error option \<times> 'a) \<times> 'c list \<times> 'w \<Rightarrow> (error option \<times> 'a) \<times> 'c list \<times> 'w"
  assumes thrown: "\<And>s. fst (fst s) \<noteq> None \<Longrightarrow> f s = s"
    and logs: "\<And>s. fst (fst s) = None \<Longrightarrow> fst (snd (f s)) = fst (snd s) @ [e]"
  shows "\<exists>j\<le>n. fst (snd ((f ^^ n) s)) = fst (snd s) @ replicate j e \<and>
           (fst (fst ((f ^^ n) s)) = None \<longrightarrow> j = n)"
proof (induction n)
  case 0
  show ?case by simp
next
  case (Suc n)
  define t where "t = (f ^^ n) s"
  from Suc obtain j where j: "j \<le> n" "fst (snd t) = fst (snd s) @ replicate j e"
    "fst (fst t) = None \<longrightarrow> j = n"
    unfolding t_def by (elim exE conjE)
  have step: "(f ^^ Suc n) s = f t"
    by (simp add: t_def)
  show ?case
  proof (cases "fst (fst t) = None")
    case True
    then have "j = n" using j(3) by simp
    have "fst (snd (f t)) = fst (snd t) @ [e]"
      using True by (rule logs)
    also have "\<dots> = fst (snd s) @ replicate (Suc n) e"
      unfolding j(2) \<open>j = n\<close> by (simp add: replicate_append_same)
    finally have "fst (snd ((f ^^ Suc n) s)) = fst (snd s) @ replicate (Suc n) e"
      unfolding step .
    then show ?thesis
      by (intro exI [of _ "Suc n"] conjI impI le_refl refl)
  next
    case False
    then have "f t = t" by (rule thrown)
    then have eq: "(f ^^ Suc n) s = t" unfolding step .
    have "j \<le> Suc n" using j(1) by simp
    moreover have "fst (snd ((f ^^ Suc n) s)) = fst (snd s) @ replicate j e"
      unfolding eq by (rule j(2))
    moreover have "fst (fst ((f ^^ Suc n) s)) = None \<longrightarrow> j = Suc n"
      unfolding eq using False by (simp del: not_None_eq)
    ultimately show ?thesis
      by (intro exI [of _ j] conjI)
  qed
qed

lemma benchmark_thrown_log:
  fixes fn :: "(error option \<times> 'a) \<times> 'c list \<times> 'w \<Rightarrow> (error option \<times> 'a) \<times> 'c list \<times> 'w"
  assumes fn1: "\<And>s. fst (fst s) \<noteq> None \<Longrightarrow> fn s = s"
    and fn2: "\<And>s. fst (fst s) = None \<Longrightarrow> fst (snd (fn s)) = fst (snd s) @ [e]"
    and now1: "\<And>s. fst (fst s) \<noteq> None \<Longrightarrow> snd (now s) = s"
    and now2: "\<And>s. fst (fst s) = None \<Longrightarrow>
      fst (snd (snd (now s))) = fst (snd s) \<and> fst (fst (snd (now s))) = None"
  shows "\<exists>j\<le>k + n. fst (snd (snd (benchmark rd nm fn now k n s))) = fst (snd s) @ replicate j e \<and>
           (fst (fst (snd (benchmark rd nm fn now k n s))) = None \<longrightarrow> j = k + n)"
proof -
  define tc where "tc = timedCall fn now"
  define s1 where "s1 = (fn ^^ k) s"
  define s2 where "s2 = (tc ^^ n) s1"
  have final: "snd (benchmark rd nm fn now k n s) = s2"
    by (simp add: benchmark_state s2_def s1_def tc_def)
  have tc1: "tc u = u" if "fst (fst u) \<noteq> None" for u
  proof -
    have "snd (now u) = u" using that by (rule now1)
    moreover have "fn u = u" using that by (rule fn1)
    ultimately show ?thesis by (simp add: tc_def timedCall_def)
  qed
  have tc2: "fst (snd (tc u)) = fst (snd u) @ [e]" if "fst (fst u) = None" for u
  proof -
    define u1 where "u1 = snd (now u)"
    define u2 where "u2 = fn u1"
    have u1: "fst (snd u1) = fst (snd u)" "fst (fst u1) = None"
      using now2 [OF that] by (simp_all add: u1_def)
    have u2: "fst (snd u2) = fst (snd u) @ [e]"
      using fn2 [OF u1(2)] u1(1) by (simp add: u2_def)
    have tc: "tc u = snd (now u2)"
      by (simp add: tc_def timedCall_def u2_def u1_def)
    show ?thesis
    proof (cases "fst (fst u2) = None")
      case True
      from now2 [OF True] u2 show ?thesis by (simp add: tc)
    next
      case False
      from now1 [OF False] u2 show ?thesis by (simp add: tc)
    qed
  qed
  have "\<exists>j\<le>k. fst (snd ((fn ^^ k) s)) = fst (snd s) @ replicate j e \<and>
      (fst (fst ((fn ^^ k) s)) = None \<longrightarrow> j = k)"
    using fn1 fn2 by (rule funpow_thrown)
  then obtain j1 where j1: "j1 \<le> k" "fst (snd s1) = fst (snd s) @ replicate j1 e"
    "fst (fst s1) = None \<longrightarrow> j1 = k"
    unfolding s1_def by (elim exE conjE)
  have "\<exists>j\<le>n. fst (snd ((tc ^^ n) s1)) = fst (snd s1) @ replicate j e \<and>
      (fst (fst ((tc ^^ n) s1)) = None \<longrightarrow> j = n)"
    using tc1 tc2 by (rule funpow_thrown)
  then obtain j2 where j2: "j2 \<le> n" "fst (snd s2) = fst (snd s1) @ replicate j2 e"
    "fst (fst s2) = None \<longrightarrow> j2 = n"
    unfolding s2_def by (elim exE conjE)
  have sticky: "fst (fst s1) = None" if "fst (fst s2) = None"
  proof (rule ccontr)
    assume a: "fst (fst s1) \<noteq> None"
    then have "tc s1 = s1" by (rule tc1)
    then have "s2 = s1" unfolding s2_def by (rule funpow_fixed)
    with that a show False by (simp del: not_None_eq)
  qed
  have "j1 + j2 \<le> k + n" using j1(1) j2(1) by simp
  moreover have "fst (snd s2) = fst (snd s) @ replicate (j1 + j2) e"
    unfolding j2(2) j1(2) by (simp add: replicate_add)
  moreover have "fst (fst s2) = None \<longrightarrow> j1 + j2 = k + n"
  proof
    assume a: "fst (fst s2) = None"
    then have "j2 = n" using j2(3) by simp
    moreover have "j1 = k" using j1(3) sticky [OF a] by simp
    ultimately show "j1 + j2 = k + n" by simp
  qed
  ultimately show ?thesis
    unfolding final by (intro exI [of _ "j1 + j2"] conjI)
qed

lemma recastGenerationFn_thrown:
  "fst (fst s) \<noteq> None \<Longrightarrow> recastGenerationFn rg ps is opts s = s"
  by (cases s, cases "fst s") (auto simp add: recastGenerationFn_def)

lemma navcatGenerationFn_thrown:
  "fst (fst s) \<noteq> None \<Longrightarrow> navcatGenerationFn ng inp opts s = s"
  by (cases s, cases "fst s") (auto simp add: navcatGenerationFn_def)

lemma unlessThrown_thrown: "fst (fst s) \<noteq> None \<Longrightarrow> snd (unlessThrown now s) = s"
  by (cases s, cases "fst s") (auto simp add: unlessThrown_def)

lemma recastGenerationFn_log:
  assumes "fst (fst s) = None"
  shows "fst (snd (recastGenerationFn (loggedRecastGenerate rg) ps is opts s)) =
     fst (snd s) @ [RecastGenerate ps is opts]"
proof -
  obtain slot calls w where s: "s = ((None, slot), (calls, w))"
    using assms by (cases s, cases "fst s", cases "snd s") auto
  obtain r w' where r: "rg ps is opts w = (r, w')"
    by (cases "rg ps is opts w")
  show ?thesis
    by (cases r) (simp_all add: s r recastGenerationFn_def loggedRecastGenerate_def)
qed

lemma navcatGenerationFn_log:
  assumes "fst (fst s) = None"
  shows "fst (snd (navcatGenerationFn (loggedNavcatGenerate ng) inp opts s)) =
     fst (snd s) @ [NavcatGenerate inp opts]"
proof -
  obtain slots calls w where s: "s = ((None, slots), (calls, w))"
    using assms by (cases s, cases "fst s", cases "snd s") auto
  obtain r w' where r: "ng inp opts w = (r, w')"
    by (cases "ng inp opts w")
  show ?thesis
    by (cases r) (simp_all add: s r navcatGenerationFn_def loggedNavcatGenerate_def)
qed

lemma unlessThrown_log:
  assumes "fst (fst s) = None"
  shows "fst (snd (snd (unlessThrown (onWorld now) s))) = fst (snd s) \<and>
    fst (fst (snd (unlessThrown (onWorld now) s))) = None"
proof -
  obtain slot calls w where s: "s = ((None, slot), (calls, w))"
    using assms by (cases s, cases "fst s", cases "snd s") auto
  obtain t w' where r: "now w = (t, w')"
    by (cases "now w")
  show ?thesis
    by (simp add: s r unlessThrown_def onWorld_def)
qed

lemma recast_calls:
  "\<exists>j\<le>k + n.
     fst (snd (snd (benchmark rd nm (recastGenerationFn (loggedRecastGenerate rg) ps is opts)
                      (unlessThrown (onWorld now)) k n s))) =
       fst (snd s) @ replicate j (RecastGenerate ps is opts) \<and>
     (fst (fst (snd (benchmark rd nm (recastGenerationFn (loggedRecastGenerate rg) ps is opts)
                       (unlessThrown (onWorld now)) k n s))) = None \<longrightarrow> j = k + n)"
proof (rule benchmark_thrown_log)
  fix s :: "(error option \<times> 'a option) \<times> ('a, 'b) call list \<times> 'c"
  show "fst (fst s) \<noteq> None \<Longrightarrow>
      recastGenerationFn (loggedRecastGenerate rg) ps is opts s = s"
    by (rule recastGenerationFn_thrown)
  show "fst (fst s) = None \<Longrightarrow>
      fst (snd (recastGenerationFn (loggedRecastGenerate rg) ps is opts s)) =
        fst (snd s) @ [RecastGenerate ps is opts]"
    by (rule recastGenerationFn_log)
  show "fst (fst s) \<noteq> None \<Longrightarrow> snd (unlessThrown (onWorld now) s) = s"
    by (rule unlessThrown_thrown)
  show "fst (fst s) = None \<Longrightarrow>
      fst (snd (snd (unlessThrown (onWorld now) s))) = fst (snd s) \<and>
      fst (fst (snd (unlessThrown (onWorld now) s))) = None"
    by (rule unlessThrown_log)
qed

lemma navcat_calls:
  "\<exists>j\<le>k + n.
     fst (snd (snd (benchmark rd nm (navcatGenerationFn (loggedNavcatGenerate ng) inp opts)
                      (unlessThrown (onWorld now)) k n s))) =
       fst (snd s) @ replicate j (NavcatGenerate inp opts) \<and>
     (fst (fst (snd (benchmark rd nm (navcatGenerationFn (loggedNavcatGenerate ng) inp opts)
                       (unlessThrown (onWorld now)) k n s))) = None \<longrightarrow> j = k + n)"
proof (rule benchmark_thrown_log)
  fix s :: "(error option \<times> 'b \<times> 'd) \<times> ('a, 'b) call list \<times> 'c"
  show "fst (fst s) \<noteq> None \<Longrightarrow>
      navcatGenerationFn (loggedNavcatGenerate ng) inp opts s = s"
    by (rule navcatGenerationFn_thrown)
  show "fst (fst s) = None \<Longrightarrow>
      fst (snd (navcatGenerationFn (loggedNavcatGenerate ng) inp opts s)) =
        fst (snd s) @ [NavcatGenerate inp opts]"
    by (rule navcatGenerationFn_log)
  show "fst (fst s) \<noteq> None \<Longrightarrow> snd (unlessThrown (onWorld now) s) = s"
    by (rule unlessThrown_thrown)
  show "fst (fst s) = None \<Longrightarrow>
      fst (snd (snd (unlessThrown (onWorld now) s))) = fst (snd s) \<and>
      fst (fst (snd (unlessThrown (onWorld now) s))) = None"
    by (rule unlessThrown_log)
qed

text \<open>Builds that return leave no error behind.\<close>

lemma funpow_invariant: "(\<And>s. P s \<Longrightarrow> P (f s)) \<Longrightarrow> P s \<Longrightarrow> P ((f ^^ n) s)"
  by (induction n) simp_all

lemma benchmark_not_thrown:
  assumes fn: "\<And>s. fst (fst s) = None \<Longrightarrow> fst (fst (fn s)) = None"
    and now: "\<And>s. fst (fst s) = None \<Longrightarrow> fst (fst (snd (now s))) = None"
    and s: "fst (fst s) = None"
  shows "fst (fst (snd (benchmark rd nm fn now k n s))) = None"
proof -
  have a: "fst (fst ((fn ^^ k) s)) = None"
    by (rule funpow_invariant [where P = "\<lambda>s. fst (fst s) = None" and f = fn, OF fn s])
  have b: "fst (fst (timedCall fn now s)) = None" if "fst (fst s) = None" for s
    using that by (simp add: timedCall_def fn now)
  have "fst (fst ((timedCall fn now ^^ n) ((fn ^^ k) s))) = None"
    by (rule funpow_invariant
        [where P = "\<lambda>s. fst (fst s) = None" and f = "timedCall fn now", OF b a])
  then show ?thesis by (simp add: benchmark_state)
qed

lemma recastGenerationFn_returning:
  assumes "fst (fst s) = None"
  shows "fst (fst (recastGenerationFn (\<lambda>ps is opts. returning (rg ps is opts)) ps is opts s))
    = None"
proof -
  obtain slot w where s: "s = ((None, slot), w)"
    using assms by (cases s, cases "fst s") auto
  obtain r w' where r: "rg ps is opts w = (r, w')"
    by (cases "rg ps is opts w")
  show ?thesis
    by (simp add: s r recastGenerationFn_def returning_def)
qed

lemma navcatGenerationFn_returning:
  assumes "fst (fst s) = None"
  shows "fst (fst (navcatGenerationFn (\<lambda>inp opts. returning (ng inp opts)) inp opts s))
    = None"
proof -
  obtain slots w where s: "s = ((None, slots), w)"
    using assms by (cases s, cases "fst s") auto
  obtain r w' where r: "ng inp opts w = (r, w')"
    by (cases "ng inp opts w")
  show ?thesis
    by (simp add: s r navcatGenerationFn_def returning_def)
qed

lemma unlessThrown_not_thrown:
  assumes "fst (fst s) = None"
  shows "fst (fst (snd (unlessThrown now s))) = None"
proof -
  obtain slot w where s: "s = ((None, slot), w)"
    using assms by (cases s, cases "fst s") auto
  obtain t w' where r: "now w = (t, w')"
    by (cases "now w")
  show ?thesis
    by (simp add: s r unlessThrown_def)
qed

subsection \<open>The outcomes of the generation harness\<close>

lemma benchmarkGeneration_recast_thrown:
  assumes "fst (fst (snd (benchmark rd ''recast generation''
      (recastGenerationFn rg ps ids (recastOptions options))
      (unlessThrown now) 3 10 ((None, None), w)))) = Some e"
  shows "benchmarkGeneration rd nulls rg ng now ps ids options w =
    (Inl e, snd (snd (benchmark rd ''recast generation''
      (recastGenerationFn rg ps ids (recastOptions options))
      (unlessThrown now) 3 10 ((None, None), w))))"
proof -
  obtain t thrown slot w1 where b: "benchmark rd ''recast generation''
      (recastGenerationFn rg ps ids (recastOptions options))
      (unlessThrown now) 3 10 ((None, None), w) = (t, ((thrown, slot), w1))"
    by (metis prod.exhaust)
  with assms have "thrown = Some e" by simp
  then show ?thesis by (simp add: benchmarkGeneration_def b)
qed

lemma benchmarkGeneration_recast_absent:
  assumes "fst (snd (benchmark rd ''recast generation''
      (recastGenerationFn rg ps ids (recastOptions options))
      (unlessThrown now) 3 10 ((None, None), w))) = (None, None)"
  shows "benchmarkGeneration rd nulls rg ng now ps ids options w =
    (Inl (Error ''Recast navmesh generation failed''),
     snd (snd (benchmark rd ''recast generation''
      (recastGenerationFn rg ps ids (recastOptions options))
      (unlessThrown now) 3 10 ((None, None), w))))"
proof -
  obtain t thrown slot w1 where b: "benchmark rd ''recast generation''
      (recastGenerationFn rg ps ids (recastOptions options))
      (unlessThrown now) 3 10 ((None, None), w) = (t, ((thrown, slot), w1))"
    by (metis prod.exhaust)
  with assms have "thrown = None" "slot = None" by simp_all
  then show ?thesis by (simp add: benchmarkGeneration_def b)
qed

lemma benchmarkGeneration_navcat:
  assumes "fst (snd (benchmark rd ''recast generation''
      (recastGenerationFn rg ps ids (recastOptions options))
      (unlessThrown now) 3 10 ((None, None), w))) = (None, Some nav)"
  shows "benchmarkGeneration rd nulls rg ng now ps ids options w =
    (case fst (fst (snd (benchmark rd ''navcat generation''
        (navcatGenerationFn ng (ps, ids) (navcatOptions options))
        (unlessThrown now) 3 10
        ((None, nulls), snd (snd (benchmark rd ''recast generation''
          (recastGenerationFn rg ps ids (recastOptions options))
          (unlessThrown now) 3 10 ((None, None), w))))))) of
       Some e \<Rightarrow> Inl e
     | None \<Rightarrow>
         Inr \<lparr> navcatNav = fst (snd (fst (snd (benchmark rd ''navcat generation''
                  (navcatGenerationFn ng (ps, ids) (navcatOptions options))
                  (unlessThrown now) 3 10
                  ((None, nulls), snd (snd (benchmark rd ''recast generation''
                    (recastGenerationFn rg ps ids (recastOptions options))
                    (unlessThrown now) 3 10 ((None, None), w)))))))),
               navcatIntermediates = snd (snd (fst (snd (benchmark rd ''navcat generation''
                  (navcatGenerationFn ng (ps, ids) (navcatOptions options))
                  (unlessThrown now) 3 10
                  ((None, nulls), snd (snd (benchmark rd ''recast generation''
                    (recastGenerationFn rg ps ids (recastOptions options))
                    (unlessThrown now) 3 10 ((None, None), w)))))))),
               navcatGenTime = fst (benchmark rd ''navcat generation''
                  (navcatGenerationFn ng (ps, ids) (navcatOptions options))
                  (unlessThrown now) 3 10
                  ((None, nulls), snd (snd (benchmark rd ''recast generation''
                    (recastGenerationFn rg ps ids (recastOptions options))
                    (unlessThrown now) 3 10 ((None, None), w))))),
               recastNav = nav,
               recastGenTime = fst (benchmark rd ''recast generation''
                  (recastGenerationFn rg ps ids (recastOptions options))
                  (unlessThrown now) 3 10 ((None, None), w)) \<rparr>,
     snd (snd (benchmark rd ''navcat generation''
        (navcatGenerationFn ng (ps, ids) (navcatOptions options))
        (unlessThrown now) 3 10
        ((None, nulls), snd (snd (benchmark rd ''recast generation''
          (recastGenerationFn rg ps ids (recastOptions options))
          (unlessThrown now) 3 10 ((None, None), w)))))))"
proof -
  obtain t thrown slot w1 where b: "benchmark rd ''recast generation''
      (recastGenerationFn rg ps ids (recastOptions options))
      (unlessThrown now) 3 10 ((None, None), w) = (t, ((thrown, slot), w1))"
    by (metis prod.exhaust)
  with assms have r: "thrown = None" "slot = Some nav" by simp_all
  obtain t' thrown' nav' inter' w2 where c: "benchmark rd ''navcat generation''
      (navcatGenerationFn ng (ps, ids) (navcatOptions options))
      (unlessThrown now) 3 10 ((None, nulls), w1) = (t', ((thrown', (nav', inter')), w2))"
    by (metis prod.exhaust)
  show ?thesis
    by (cases thrown') (simp_all add: benchmarkGeneration_def b r c)
qed

text \<open>
  After an invocation, the variables of the navcat closure hold what a build returned,
  unless a build has thrown; and the clock does not touch them.
\<close>

lemma navcatGenerationFn_slots:
  "fst (fst (navcatGenerationFn ng inp opts s)) = None \<Longrightarrow>
   \<exists>w0. fst (ng inp opts w0) = Inr (snd (fst (navcatGenerationFn ng inp opts s)))"
proof -
  assume a: "fst (fst (navcatGenerationFn ng inp opts s)) = None"
  obtain thrown slots w where s: "s = ((thrown, slots), w)"
    by (metis prod.exhaust)
  obtain r w' where r: "ng inp opts w = (r, w')"
    by (cases "ng inp opts w")
  from a have t: "thrown = None"
    by (cases thrown) (simp_all add: s navcatGenerationFn_def)
  from a have "\<exists>x. r = Inr x"
    by (cases r) (simp_all add: s t r navcatGenerationFn_def)
  then obtain x where x: "r = Inr x" ..
  have "fst (ng inp opts w) = Inr (snd (fst (navcatGenerationFn ng inp opts s)))"
    by (simp add: s t r x navcatGenerationFn_def)
  then show ?thesis ..
qed

lemma unlessThrown_slots: "fst (snd (unlessThrown now s)) = fst s"
proof -
  obtain thrown slots w where s: "s = ((thrown, slots), w)"
    by (metis prod.exhaust)
  obtain t w' where r: "now w = (t, w')"
    by (cases "now w")
  show ?thesis
    by (cases thrown) (simp_all add: s r unlessThrown_def)
qed

lemma navcat_slots_after:
  fixes ng :: "real list \<times> nat list \<Rightarrow> NavcatOptions \<Rightarrow> 'w \<Rightarrow> (error + 'nh \<times> 'ni) \<times> 'w"
  assumes "fst (fst ((timedCall (navcatGenerationFn ng inp opts) (unlessThrown now) ^^ Suc n) s))
    = None"
  shows "\<exists>w0. fst (ng inp opts w0) =
    Inr (snd (fst ((timedCall (navcatGenerationFn ng inp opts) (unlessThrown now) ^^ Suc n) s)))"
proof -
  define u where
    "u = snd (unlessThrown now
       ((timedCall (navcatGenerationFn ng inp opts) (unlessThrown now) ^^ n) s))"
  have step: "(timedCall (navcatGenerationFn ng inp opts) (unlessThrown now) ^^ Suc n) s =
      snd (unlessThrown now (navcatGenerationFn ng inp opts u))"
    by (simp add: timedCall_def u_def)
  have same: "fst (snd (unlessThrown now (navcatGenerationFn ng inp opts u))) =
      fst (navcatGenerationFn ng inp opts u)"
    by (rule unlessThrown_slots)
  from assms have "fst (fst (navcatGenerationFn ng inp opts u)) = None"
    unfolding step same .
  then have "\<exists>w0. fst (ng inp opts w0) = Inr (snd (fst (navcatGenerationFn ng inp opts u)))"
    by (rule navcatGenerationFn_slots)
  then show ?thesis
    unfolding step same .
qed

subsection \<open>The path comparison\<close>

text \<open>
  C5, as stated, fails: \<open>computePath\<close> is called with the start and the end only, so
  the recast query is not given the search half-extents that \<open>findPath\<close> is given.
\<close>

theorem verifyPaths_counterexample:
  "snd (verifyPaths
          (loggedFindPath (\<lambda>nav s e h f w. ((), w)))
          (loggedComputePath (\<lambda>nav s e h w. ((), w))) ()
          \<lparr> navcatNav = (), navcatIntermediates = (),
            navcatGenTime = fst (benchmark Fin ''t'' id scriptedClock 0 0 []),
            recastNav = (),
            recastGenTime = fst (benchmark Fin ''t'' id scriptedClock 0 0 []) \<rparr>
          ([], ())) =
     ([FindPath () (-3.94, 0.26, 4) (2.52, 2.39, -2.2) (1, 1, 1),
       ComputePath () (-3.94, 0.26, 4) (2.52, 2.39, -2.2) None], ()) \<and>
   \<not> sameQueryArguments
       (FindPath () (-3.94, 0.26, 4) (2.52, 2.39, -2.2) (1, 1, 1))
       (ComputePath () (-3.94, 0.26, 4) (2.52, 2.39, -2.2) None)"
  by (simp add: verifyPaths_def loggedFindPath_def loggedComputePath_def
      startPos_def endPos_def halfExtents_def)

text \<open>
  C5, amended. \<open>verifyPaths\<close> calls each backend's query exactly once, \<open>findPath\<close>
  first, both with the start \<open>(-3.94, 0.26, 4)\<close> and the end \<open>(2.52, 2.39, -2.2)\<close>;
  the half-extents \<open>(1, 1, 1)\<close> are given to \<open>findPath\<close> only. Logging the calls
  changes neither the paths nor the world.
\<close>

theorem verifyPaths_calls:
  "verifyPaths (loggedFindPath fp) (loggedComputePath cp) filt g (calls, w) =
     (fst (verifyPaths fp cp filt g w),
      calls @ [FindPath (navcatNav g) (-3.94, 0.26, 4) (2.52, 2.39, -2.2) (1, 1, 1),
               ComputePath (recastNav g) (-3.94, 0.26, 4) (2.52, 2.39, -2.2) None],
      snd (verifyPaths fp cp filt g w))"
  by (simp add: verifyPaths_def loggedFindPath_def loggedComputePath_def
      startPos_def endPos_def halfExtents_def split: prod.splits)

subsection \<open>Failure of the generation\<close>

text \<open>
  C6. Let \<open>R\<close> be the variables and the world after the thirteen invocations of the
  recast build, and \<open>N\<close> those after the thirteen invocations of the navcat build.
  For either backend, a build that has left no handle ends the run with a reported
  error:
  \<^item> if a recast build threw, the run ends with the error thrown;
  \<^item> if \<open>recastNav\<close> is empty after the last recast invocation, the run ends with
    \<open>Recast navmesh generation failed\<close>;
  \<^item> if a navcat build threw, which is the one way for it to yield no handle, the run
    ends with the error thrown.

  In each case the world is the one the failed generation left: nothing is retried and
  nothing follows, neither the other generation nor a path query. And where
  \<open>benchmarkGeneration\<close> does return, the handles it returns are \<open>recastNav\<close> as the
  last recast invocation left it and a pair that a navcat build returned.
\<close>

theorem generation_failure:
  assumes "R = (timedCall (recastGenerationFn rg ps is (recastOptions createGenerationOptions))
                  (unlessThrown now) ^^ 10)
               ((recastGenerationFn rg ps is (recastOptions createGenerationOptions) ^^ 3)
                  ((None, None), w))"
    and "N = (timedCall (navcatGenerationFn ng (ps, is) (navcatOptions createGenerationOptions))
                (unlessThrown now) ^^ 10)
             ((navcatGenerationFn ng (ps, is) (navcatOptions createGenerationOptions) ^^ 3)
                ((None, nulls), snd R))"
  shows "(fst (fst R) = Some e \<longrightarrow>
            run rd nulls rg ng fp cp filt now ps is w = (Inl e, snd R)) \<and>
         (fst R = (None, None) \<longrightarrow>
            run rd nulls rg ng fp cp filt now ps is w =
              (Inl (Error ''Recast navmesh generation failed''), snd R)) \<and>
         (fst (fst R) = None \<and> snd (fst R) \<noteq> None \<and> fst (fst N) = Some e \<longrightarrow>
            run rd nulls rg ng fp cp filt now ps is w = (Inl e, snd N)) \<and>
         (fst R = (None, Some h) \<and> fst (fst N) = None \<longrightarrow>
            (\<exists>g. benchmarkGeneration rd nulls rg ng now ps is createGenerationOptions w =
                   (Inr g, snd N) \<and>
                 recastNav g = h \<and>
                 (\<exists>w0. fst (ng (ps, is) (navcatOptions createGenerationOptions) w0) =
                    Inr (navcatNav g, navcatIntermediates g))))"
proof -
  let ?FR = "recastGenerationFn rg ps is (recastOptions createGenerationOptions)"
  let ?FN = "navcatGenerationFn ng (ps, is) (navcatOptions createGenerationOptions)"
  have R: "snd (benchmark rd ''recast generation'' ?FR (unlessThrown now) 3 10 ((None, None), w))
      = R"
    by (simp only: benchmark_state assms(1))
  have N: "snd (benchmark rd ''navcat generation'' ?FN (unlessThrown now) 3 10
      ((None, nulls), snd R)) = N"
    by (simp only: benchmark_state assms(2))
  have a: "run rd nulls rg ng fp cp filt now ps is w = (Inl e, snd R)"
    if "fst (fst R) = Some e"
    using that benchmarkGeneration_recast_thrown
      [where rd = rd and rg = rg and ps = ps and ids = "is" and now = now and w = w and e = e
         and options = createGenerationOptions and nulls = nulls and ng = ng]
    by (simp add: run_def R)
  have b: "run rd nulls rg ng fp cp filt now ps is w =
      (Inl (Error ''Recast navmesh generation failed''), snd R)"
    if "fst R = (None, None)"
    using that benchmarkGeneration_recast_absent
      [where rd = rd and rg = rg and ps = ps and ids = "is" and now = now and w = w
         and options = createGenerationOptions and nulls = nulls and ng = ng]
    by (simp add: run_def R)
  have navcat: "benchmarkGeneration rd nulls rg ng now ps is createGenerationOptions w =
      (case fst (fst N) of
         Some e \<Rightarrow> Inl e
       | None \<Rightarrow>
           Inr \<lparr> navcatNav = fst (snd (fst N)),
                 navcatIntermediates = snd (snd (fst N)),
                 navcatGenTime = fst (benchmark rd ''navcat generation'' ?FN (unlessThrown now)
                    3 10 ((None, nulls), snd R)),
                 recastNav = nav,
                 recastGenTime = fst (benchmark rd ''recast generation'' ?FR (unlessThrown now)
                    3 10 ((None, None), w)) \<rparr>,
       snd N)"
    if "fst R = (None, Some nav)" for nav
    using benchmarkGeneration_navcat
      [where rd = rd and rg = rg and ps = ps and ids = "is" and now = now and w = w
         and options = createGenerationOptions and nulls = nulls and ng = ng and nav = nav]
      that
    by (simp only: R N)
  have c: "run rd nulls rg ng fp cp filt now ps is w = (Inl e, snd N)"
    if "fst (fst R) = None \<and> snd (fst R) \<noteq> None \<and> fst (fst N) = Some e"
  proof -
    from that obtain nav where "fst R = (None, Some nav)"
      by (cases "fst R") auto
    from navcat [OF this] that show ?thesis
      by (simp add: run_def)
  qed
  have d: "\<exists>g. benchmarkGeneration rd nulls rg ng now ps is createGenerationOptions w =
                   (Inr g, snd N) \<and>
                 recastNav g = h \<and>
                 (\<exists>w0. fst (ng (ps, is) (navcatOptions createGenerationOptions) w0) =
                    Inr (navcatNav g, navcatIntermediates g))"
    if "fst R = (None, Some h) \<and> fst (fst N) = None"
  proof -
    have "fst (fst ((timedCall ?FN (unlessThrown now) ^^ Suc 9) ((?FN ^^ 3) ((None, nulls), snd R))))
        = None"
      using that by (simp add: assms(2))
    then have "\<exists>w0. fst (ng (ps, is) (navcatOptions createGenerationOptions) w0) =
        Inr (snd (fst ((timedCall ?FN (unlessThrown now) ^^ Suc 9)
          ((?FN ^^ 3) ((None, nulls), snd R)))))"
      by (rule navcat_slots_after)
    then have "\<exists>w0. fst (ng (ps, is) (navcatOptions createGenerationOptions) w0) =
        Inr (snd (fst N))"
      by (simp add: assms(2))
    with navcat [of h] that show ?thesis
      by simp
  qed
  from a b c d show ?thesis by blast
qed

text \<open>
  With every backend logged: a recast build that throws at once (one call), one that
  never yields a handle (thirteen calls), a navcat build that throws at once (thirteen
  calls and one), each followed by nothing; and two builds that yield handles.
\<close>

theorem generation_failure_witness:
  "run Fin (0 :: nat, 0 :: nat)
       (loggedRecastGenerate (\<lambda>ps is opts w. (Inl (Error ''boom'') :: error + nat option, w)))
       (loggedNavcatGenerate (\<lambda>inp opts w. (Inr (2, 3), w)))
       (loggedFindPath (\<lambda>nav s e h f w. ((), w)))
       (loggedComputePath (\<lambda>nav s e h w. ((), w))) ()
       (onWorld (\<lambda>w. (0, w))) [] [] ([], ()) =
     (Inl (Error ''boom''),
      ([RecastGenerate [] [] (recastOptions createGenerationOptions)], ())) \<and>
   run Fin (0 :: nat, 0 :: nat)
       (loggedRecastGenerate (\<lambda>ps is opts w. (Inr (None :: nat option), w)))
       (loggedNavcatGenerate (\<lambda>inp opts w. (Inr (2, 3), w)))
       (loggedFindPath (\<lambda>nav s e h f w. ((), w)))
       (loggedComputePath (\<lambda>nav s e h w. ((), w))) ()
       (onWorld (\<lambda>w. (0, w))) [] [] ([], ()) =
     (Inl (Error ''Recast navmesh generation failed''),
      (replicate 13 (RecastGenerate [] [] (recastOptions createGenerationOptions)), ())) \<and>
   run Fin (0 :: nat, 0 :: nat)
       (loggedRecastGenerate (\<lambda>ps is opts w. (Inr (Some (1 :: nat)), w)))
       (loggedNavcatGenerate (\<lambda>inp opts w. (Inl (Error ''boom''), w)))
       (loggedFindPath (\<lambda>nav s e h f w. ((), w)))
       (loggedComputePath (\<lambda>nav s e h w. ((), w))) ()
       (onWorld (\<lambda>w. (0, w))) [] [] ([], ()) =
     (Inl (Error ''boom''),
      (replicate 13 (RecastGenerate [] [] (recastOptions createGenerationOptions)) @
       [NavcatGenerate ([], []) (navcatOptions createGenerationOptions)], ())) \<and>
   map_sum id (\<lambda>g. (recastNav g, navcatNav g, navcatIntermediates g))
     (fst (benchmarkGeneration Fin (0 :: nat, 0 :: nat)
        (\<lambda>ps is opts w. (Inr (Some (1 :: nat)), w))
        (\<lambda>inp opts w. (Inr (2, 3), w))
        (\<lambda>w. (0, w)) [] [] createGenerationOptions ())) = Inr (1, 2, 3)"
proof -
  let ?A = "RecastGenerate [] [] (recastOptions createGenerationOptions) :: (nat, nat) call"
  let ?B = "NavcatGenerate ([], []) (navcatOptions createGenerationOptions) :: (nat, nat) call"
  let ?now = "onWorld (\<lambda>w :: unit. (0 :: real, w)) :: (nat, nat) call list \<times> unit \<Rightarrow> _"
  let ?ng = "loggedNavcatGenerate (\<lambda>inp opts w. (Inr (2 :: nat, 3 :: nat), w :: unit)) ::
      _ \<Rightarrow> _ \<Rightarrow> (nat, nat) call list \<times> unit \<Rightarrow> _"
  let ?fp = "loggedFindPath (\<lambda>nav s e h f w. ((), w :: unit)) ::
      nat \<Rightarrow> _ \<Rightarrow> _ \<Rightarrow> _ \<Rightarrow> unit \<Rightarrow> (nat, nat) call list \<times> unit \<Rightarrow> _"
  let ?cp = "loggedComputePath (\<lambda>nav s e h w. ((), w :: unit)) ::
      nat \<Rightarrow> _ \<Rightarrow> _ \<Rightarrow> _ \<Rightarrow> (nat, nat) call list \<times> unit \<Rightarrow> _"
  note defs = timedCall_def unlessThrown_def onWorld_def recastGenerationFn_def
    navcatGenerationFn_def loggedRecastGenerate_def loggedNavcatGenerate_def eval_nat_numeral
  let ?rg1 = "loggedRecastGenerate
      (\<lambda>ps is opts w. (Inl (Error ''boom'') :: error + nat option, w :: unit)) ::
      _ \<Rightarrow> _ \<Rightarrow> _ \<Rightarrow> (nat, nat) call list \<times> unit \<Rightarrow> _"
  have r1: "((Some (Error ''boom''), None), ([?A], ())) =
      (timedCall (recastGenerationFn ?rg1 [] [] (recastOptions createGenerationOptions))
         (unlessThrown ?now) ^^ 10)
        ((recastGenerationFn ?rg1 [] [] (recastOptions createGenerationOptions) ^^ 3)
           ((None, None), ([], ())))"
    by (simp add: defs)
  have w1: "run Fin (0 :: nat, 0 :: nat) ?rg1 ?ng ?fp ?cp () ?now [] [] ([], ()) =
      (Inl (Error ''boom''), ([?A], ()))"
    using generation_failure [OF r1 refl, of "Error ''boom''" Fin "(0, 0)" ?ng ?fp ?cp "()"]
    by simp
  let ?rg2 = "loggedRecastGenerate
      (\<lambda>ps is opts w. (Inr (None :: nat option), w :: unit)) ::
      _ \<Rightarrow> _ \<Rightarrow> _ \<Rightarrow> (nat, nat) call list \<times> unit \<Rightarrow> _"
  have r2: "((None, None), (replicate 13 ?A, ())) =
      (timedCall (recastGenerationFn ?rg2 [] [] (recastOptions createGenerationOptions))
         (unlessThrown ?now) ^^ 10)
        ((recastGenerationFn ?rg2 [] [] (recastOptions createGenerationOptions) ^^ 3)
           ((None, None), ([], ())))"
    by (simp add: defs)
  have w2: "run Fin (0 :: nat, 0 :: nat) ?rg2 ?ng ?fp ?cp () ?now [] [] ([], ()) =
      (Inl (Error ''Recast navmesh generation failed''), (replicate 13 ?A, ()))"
    using generation_failure [OF r2 refl, of _ Fin "(0, 0)" ?ng ?fp ?cp "()"]
    by simp
  let ?rg3 = "loggedRecastGenerate
      (\<lambda>ps is opts w. (Inr (Some (1 :: nat)), w :: unit)) ::
      _ \<Rightarrow> _ \<Rightarrow> _ \<Rightarrow> (nat, nat) call list \<times> unit \<Rightarrow> _"
  let ?ng3 = "loggedNavcatGenerate
      (\<lambda>inp opts w. (Inl (Error ''boom'') :: error + nat \<times> nat, w :: unit)) ::
      _ \<Rightarrow> _ \<Rightarrow> (nat, nat) call list \<times> unit \<Rightarrow> _"
  have r3: "((None, Some 1), (replicate 13 ?A, ())) =
      (timedCall (recastGenerationFn ?rg3 [] [] (recastOptions createGenerationOptions))
         (unlessThrown ?now) ^^ 10)
        ((recastGenerationFn ?rg3 [] [] (recastOptions createGenerationOptions) ^^ 3)
           ((None, None), ([], ())))"
    by (simp add: defs)
  have n3: "((Some (Error ''boom''), (0, 0)), (replicate 13 ?A @ [?B], ())) =
      (timedCall (navcatGenerationFn ?ng3 ([], []) (navcatOptions createGenerationOptions))
         (unlessThrown ?now) ^^ 10)
        ((navcatGenerationFn ?ng3 ([], []) (navcatOptions createGenerationOptions) ^^ 3)
           ((None, (0, 0)), snd ((None, Some (1 :: nat)), (replicate 13 ?A, ()))))"
    by (simp add: defs)
  have w3: "run Fin (0 :: nat, 0 :: nat) ?rg3 ?ng3 ?fp ?cp () ?now [] [] ([], ()) =
      (Inl (Error ''boom''), (replicate 13 ?A @ [?B], ()))"
    using generation_failure [OF r3 n3, of "Error ''boom''" Fin ?fp ?cp "()"]
    by simp
  let ?rg4 = "\<lambda>(ps :: real list) (is :: nat list) (opts :: RecastOptions) (w :: unit).
      (Inr (Some (1 :: nat)) :: error + nat option, w)"
  let ?ng4 = "\<lambda>(inp :: real list \<times> nat list) (opts :: NavcatOptions) (w :: unit).
      (Inr (2 :: nat, 3 :: nat) :: error + nat \<times> nat, w)"
  have r4: "((None, Some 1), ()) =
      (timedCall (recastGenerationFn ?rg4 [] [] (recastOptions createGenerationOptions))
         (unlessThrown (\<lambda>w. (0, w))) ^^ 10)
        ((recastGenerationFn ?rg4 [] [] (recastOptions createGenerationOptions) ^^ 3)
           ((None, None), ()))"
    by (simp add: defs)
  have n4: "((None, (2, 3)), ()) =
      (timedCall (navcatGenerationFn ?ng4 ([], []) (navcatOptions createGenerationOptions))
         (unlessThrown (\<lambda>w. (0, w))) ^^ 10)
        ((navcatGenerationFn ?ng4 ([], []) (navcatOptions createGenerationOptions) ^^ 3)
           ((None, (0, 0)), snd ((None, Some (1 :: nat)), ())))"
    by (simp add: defs)
  have w4: "map_sum id (\<lambda>g. (recastNav g, navcatNav g, navcatIntermediates g))
     (fst (benchmarkGeneration Fin (0 :: nat, 0 :: nat) ?rg4 ?ng4 (\<lambda>w. (0, w)) [] []
        createGenerationOptions ())) = Inr (1, 2, 3)"
    using generation_failure [OF r4 n4, of _ Fin _ _ _ 1]
    by auto
  from w1 w2 w3 w4 show ?thesis by simp
qed

subsection \<open>The options each backend is given\<close>

lemma logged_recast_returning:
  assumes "fst (fst s) = None"
  shows "fst (fst (recastGenerationFn
      (loggedRecastGenerate (\<lambda>ps ids opts. returning (rg ps ids opts))) ps ids opts s)) = None"
proof -
  obtain slot calls w where s: "s = ((None, slot), (calls, w))"
    using assms by (cases s, cases "fst s", cases "snd s") auto
  obtain r w' where r: "rg ps ids opts w = (r, w')"
    by (cases "rg ps ids opts w")
  show ?thesis
    by (simp add: s r recastGenerationFn_def loggedRecastGenerate_def returning_def)
qed

lemma logged_navcat_returning:
  assumes "fst (fst s) = None"
  shows "fst (fst (navcatGenerationFn
      (loggedNavcatGenerate (\<lambda>inp opts. returning (ng inp opts))) inp opts s)) = None"
proof -
  obtain slots calls w where s: "s = ((None, slots), (calls, w))"
    using assms by (cases s, cases "fst s", cases "snd s") auto
  obtain r w' where r: "ng inp opts w = (r, w')"
    by (cases "ng inp opts w")
  show ?thesis
    by (simp add: s r navcatGenerationFn_def loggedNavcatGenerate_def returning_def)
qed

lemma generation_calls:
  fixes rg :: "real list \<Rightarrow> nat list \<Rightarrow> RecastOptions \<Rightarrow> ('rh, 'nh) call list \<times> 'w \<Rightarrow>
      (error + 'rh option) \<times> ('rh, 'nh) call list \<times> 'w"
    and ng :: "real list \<times> nat list \<Rightarrow> NavcatOptions \<Rightarrow> ('rh, 'nh) call list \<times> 'w \<Rightarrow>
      (error + 'nh \<times> 'ni) \<times> ('rh, 'nh) call list \<times> 'w"
  assumes R: "R = snd (benchmark rd ''recast generation''
        (recastGenerationFn rg ps ids (recastOptions options))
        (unlessThrown now) 3 10 ((None, None), ([], w)))"
    and N: "N = snd (benchmark rd ''navcat generation''
        (navcatGenerationFn ng (ps, ids) (navcatOptions options))
        (unlessThrown now) 3 10 ((None, nulls), snd R))"
    and i: "i \<le> 13" "fst (snd R) = replicate i A" "fst (fst R) = None \<longrightarrow> i = 13"
    and j: "j \<le> 13" "fst (snd N) = fst (snd R) @ replicate j B"
      "fst (fst N) = None \<longrightarrow> j = 13"
  shows "(\<exists>i j. i \<le> 13 \<and> j \<le> 13 \<and>
            fst (snd (benchmarkGeneration rd nulls rg ng now ps ids options ([], w))) =
              replicate i A @ replicate j B) \<and>
         (fst (fst R) = None \<and> (snd (fst R) \<noteq> None \<longrightarrow> fst (fst N) = None) \<longrightarrow>
            fst (snd (benchmarkGeneration rd nulls rg ng now ps ids options ([], w))) =
              replicate 13 A \<or>
            fst (snd (benchmarkGeneration rd nulls rg ng now ps ids options ([], w))) =
              replicate 13 A @ replicate 13 B)"
proof (cases "fst (fst R)")
  case (Some e)
  then have "benchmarkGeneration rd nulls rg ng now ps ids options ([], w) = (Inl e, snd R)"
    unfolding R by (rule benchmarkGeneration_recast_thrown)
  then have "fst (snd (benchmarkGeneration rd nulls rg ng now ps ids options ([], w))) =
      replicate i A @ replicate 0 B"
    using i(2) by simp
  with i(1) Some show ?thesis
    by (intro conjI exI [of _ i] exI [of _ "0 :: nat"]) simp_all
next
  case None
  then have i13: "i = 13" using i(3) by simp
  show ?thesis
  proof (cases "snd (fst R)")
    case absent: None
    with None have "fst R = (None, None)" by (simp add: prod_eq_iff)
    then have "benchmarkGeneration rd nulls rg ng now ps ids options ([], w) =
        (Inl (Error ''Recast navmesh generation failed''), snd R)"
      unfolding R by (rule benchmarkGeneration_recast_absent)
    then have l: "fst (snd (benchmarkGeneration rd nulls rg ng now ps ids options ([], w))) =
        replicate 13 A"
      using i(2) i13 by simp
    then have "fst (snd (benchmarkGeneration rd nulls rg ng now ps ids options ([], w))) =
        replicate 13 A @ replicate 0 B"
      by simp
    with l show ?thesis
      by (intro conjI impI disjI1 exI [of _ "13 :: nat"] exI [of _ "0 :: nat"]) simp_all
  next
    case (Some nav)
    with None have "fst R = (None, Some nav)" by (simp add: prod_eq_iff)
    then have "snd (benchmarkGeneration rd nulls rg ng now ps ids options ([], w)) = snd N"
      unfolding R N by (simp add: benchmarkGeneration_navcat split: option.split)
    then have l: "fst (snd (benchmarkGeneration rd nulls rg ng now ps ids options ([], w))) =
        replicate 13 A @ replicate j B"
      using i(2) i13 j(2) by simp
    have "j = 13" if "fst (fst R) = None \<and> (snd (fst R) \<noteq> None \<longrightarrow> fst (fst N) = None)"
      using that Some j(3) by simp
    with l j(1) show ?thesis
      by (intro conjI impI disjI2 exI [of _ "13 :: nat"] exI [of _ j]) simp_all
  qed
qed

lemma generation_log:
  fixes rg :: "real list \<Rightarrow> nat list \<Rightarrow> RecastOptions \<Rightarrow> 'w \<Rightarrow> (error + 'rh option) \<times> 'w"
    and ng :: "real list \<times> nat list \<Rightarrow> NavcatOptions \<Rightarrow> 'w \<Rightarrow> (error + 'nh \<times> 'ni) \<times> 'w"
  assumes R: "R = snd (benchmark rd ''recast generation''
        (recastGenerationFn (loggedRecastGenerate rg) ps ids (recastOptions options))
        (unlessThrown (onWorld now)) 3 10 ((None, None), ([] :: ('rh, 'nh) call list, w)))"
    and N: "N = snd (benchmark rd ''navcat generation''
        (navcatGenerationFn (loggedNavcatGenerate ng) (ps, ids) (navcatOptions options))
        (unlessThrown (onWorld now)) 3 10 ((None, nulls), snd R))"
  shows "(\<exists>i j. i \<le> 13 \<and> j \<le> 13 \<and>
            fst (snd (benchmarkGeneration rd nulls (loggedRecastGenerate rg)
              (loggedNavcatGenerate ng) (onWorld now) ps ids options ([], w))) =
              replicate i (RecastGenerate ps ids (recastOptions options)) @
              replicate j (NavcatGenerate (ps, ids) (navcatOptions options))) \<and>
         (fst (fst R) = None \<and> (snd (fst R) \<noteq> None \<longrightarrow> fst (fst N) = None) \<longrightarrow>
            fst (snd (benchmarkGeneration rd nulls (loggedRecastGenerate rg)
              (loggedNavcatGenerate ng) (onWorld now) ps ids options ([], w))) =
              replicate 13 (RecastGenerate ps ids (recastOptions options)) \<or>
            fst (snd (benchmarkGeneration rd nulls (loggedRecastGenerate rg)
              (loggedNavcatGenerate ng) (onWorld now) ps ids options ([], w))) =
              replicate 13 (RecastGenerate ps ids (recastOptions options)) @
              replicate 13 (NavcatGenerate (ps, ids) (navcatOptions options)))"
proof -
  let ?A = "RecastGenerate ps ids (recastOptions options) :: ('rh, 'nh) call"
  let ?B = "NavcatGenerate (ps, ids) (navcatOptions options) :: ('rh, 'nh) call"
  from recast_calls [of 3 10 rd "''recast generation''" rg ps ids "recastOptions options"
      now "((None, None), ([], w))"]
  obtain i where i: "i \<le> 13" "fst (snd R) = replicate i ?A" "fst (fst R) = None \<longrightarrow> i = 13"
    unfolding R by auto
  from navcat_calls [of 3 10 rd "''navcat generation''" ng "(ps, ids)" "navcatOptions options"
      now "((None, nulls), snd R)"]
  obtain j where j: "j \<le> 13" "fst (snd N) = fst (snd R) @ replicate j ?B"
    "fst (fst N) = None \<longrightarrow> j = 13"
    unfolding N by auto
  show ?thesis
    by (rule generation_calls [OF R N i j])
qed

text \<open>
  C7. The recast backend is given \<open>minRegionArea\<close> as it is and the navcat backend
  its square: 8 and 64 for the options of \<open>createGenerationOptions\<close>. Every call of
  the recast build is given \<open>recastOptions\<close> and every call of the navcat build
  \<open>navcatOptions\<close>: with builds that return, the log of \<open>benchmarkGeneration\<close> is
  thirteen calls of the first, followed, unless the recast build failed, by thirteen
  calls of the second; with builds that may throw, it is at most thirteen calls of the
  first followed by at most thirteen of the second.
\<close>

theorem minRegionArea_adapter:
  "recast_minRegionArea (recastOptions options) = minRegionArea options \<and>
   navcat_minRegionArea (navcatOptions options) = minRegionArea options * minRegionArea options \<and>
   minRegionArea createGenerationOptions = 8 \<and>
   recast_minRegionArea (recastOptions createGenerationOptions) = 8 \<and>
   navcat_minRegionArea (navcatOptions createGenerationOptions) = 64 \<and>
   (fst (snd (benchmarkGeneration rd nulls
                (loggedRecastGenerate (\<lambda>ps is opts. returning (rg ps is opts)))
                (loggedNavcatGenerate (\<lambda>inp opts. returning (ng inp opts)))
                (onWorld now) ps is options ([], w))) =
      replicate 13 (RecastGenerate ps is (recastOptions options)) \<or>
    fst (snd (benchmarkGeneration rd nulls
                (loggedRecastGenerate (\<lambda>ps is opts. returning (rg ps is opts)))
                (loggedNavcatGenerate (\<lambda>inp opts. returning (ng inp opts)))
                (onWorld now) ps is options ([], w))) =
      replicate 13 (RecastGenerate ps is (recastOptions options)) @
      replicate 13 (NavcatGenerate (ps, is) (navcatOptions options))) \<and>
   (\<exists>i j. i \<le> 13 \<and> j \<le> 13 \<and>
      fst (snd (benchmarkGeneration rd nulls' (loggedRecastGenerate rg')
                  (loggedNavcatGenerate ng') (onWorld now) ps is options ([], w))) =
        replicate i (RecastGenerate ps is (recastOptions options)) @
        replicate j (NavcatGenerate (ps, is) (navcatOptions options)))"
proof -
  have returning: "fst (snd (benchmarkGeneration rd nulls
                (loggedRecastGenerate (\<lambda>ps is opts. returning (rg ps is opts)))
                (loggedNavcatGenerate (\<lambda>inp opts. returning (ng inp opts)))
                (onWorld now) ps is options ([], w))) =
      replicate 13 (RecastGenerate ps is (recastOptions options)) \<or>
    fst (snd (benchmarkGeneration rd nulls
                (loggedRecastGenerate (\<lambda>ps is opts. returning (rg ps is opts)))
                (loggedNavcatGenerate (\<lambda>inp opts. returning (ng inp opts)))
                (onWorld now) ps is options ([], w))) =
      replicate 13 (RecastGenerate ps is (recastOptions options)) @
      replicate 13 (NavcatGenerate (ps, is) (navcatOptions options))"
  proof -
    define R where "R = snd (benchmark rd ''recast generation''
        (recastGenerationFn (loggedRecastGenerate (\<lambda>ps is opts. returning (rg ps is opts)))
           ps is (recastOptions options))
        (unlessThrown (onWorld now)) 3 10 ((None, None), ([] :: ('a, 'b) call list, w)))"
    define N where "N = snd (benchmark rd ''navcat generation''
        (navcatGenerationFn (loggedNavcatGenerate (\<lambda>inp opts. returning (ng inp opts)))
           (ps, is) (navcatOptions options))
        (unlessThrown (onWorld now)) 3 10 ((None, nulls), snd R))"
    have "fst (fst R) = None"
      unfolding R_def
      by (rule benchmark_not_thrown) (simp_all add: logged_recast_returning unlessThrown_not_thrown)
    moreover have "fst (fst N) = None"
      unfolding N_def
      by (rule benchmark_not_thrown) (simp_all add: logged_navcat_returning unlessThrown_not_thrown)
    ultimately show ?thesis
      using generation_log [OF R_def N_def] by simp
  qed
  from generation_log [OF refl refl, where rg = rg' and ng = ng' and nulls = nulls'
      and rd = rd and ps = ps and ids = "is" and options = options and now = now and w = w]
    returning
  show ?thesis
    by (simp add: recastOptions_def navcatOptions_def createGenerationOptions_def)
qed

end
